theory Spec2Isabelle
  imports Complex_Main
begin

section \<open>Numbers of the notebooks\<close>

text \<open>
  The notebooks compute with Python floats and numpy \<open>float64\<close> arrays. A value is a
  real number, meant to be a binary64 number, or one of the three IEEE special values. Every
  arithmetic operation on finite values rounds its exact result with \<open>round64\<close>: to the
  nearest binary64 number, ties to the even significand, with gradual underflow below
  \<open>2 powi (- 1022)\<close> and overflow to an infinity from \<open>2 ^ 1024 - 2 ^ 970\<close> on.
  The special values follow the IEEE rules numpy applies: a division by zero does not
  raise, it gives an infinity or NaN, and every comparison with NaN is false. The sign of
  a zero is left out: a zero divisor counts as positive.
\<close>

datatype npfloat = Fin real | PInf | NInf | NaN

fun isfinite :: "npfloat \<Rightarrow> bool" where
  "isfinite (Fin a) = True"
| "isfinite PInf = False"
| "isfinite NInf = False"
| "isfinite NaN = False"

fun isnan :: "npfloat \<Rightarrow> bool" where
  "isnan NaN = True"
| "isnan (Fin a) = False"
| "isnan PInf = False"
| "isnan NInf = False"

text \<open>\<open>rne\<close> rounds a real to the nearest integer, a tie to the even one.\<close>

definition rne :: "real \<Rightarrow> int" where
  "rne t = (let f = \<lfloor>t\<rfloor>
            in if t - of_int f < 1 / 2 then f
               else if 1 / 2 < t - of_int f then f + 1
               else if even f then f else f + 1)"

text \<open>
  \<open>round64\<close>: for \<open>x\<close> in the binade \<open>2 powi e \<le> \<bar>x\<bar> < 2 powi (e + 1)\<close> the
  binary64 numbers are the multiples of \<open>2 powi (e - 52)\<close>; below the smallest normal
  number they are the multiples of \<open>2 powi (- 1074)\<close>.
\<close>

definition round64 :: "real \<Rightarrow> npfloat" where
  "round64 x =
     (if x = 0 then Fin 0
      else
        let e = max \<lfloor>log 2 \<bar>x\<bar>\<rfloor> (- 1022);
            y = of_int (rne (x / 2 powi (e - 52))) * 2 powi (e - 52)
        in if 2 ^ 1024 \<le> \<bar>y\<bar> then (if 0 < x then PInf else NInf) else Fin y)"

definition signed_inf :: "real \<Rightarrow> npfloat" where
  "signed_inf s = (if s = 0 then NaN else if 0 < s then PInf else NInf)"

fun fneg :: "npfloat \<Rightarrow> npfloat" where
  "fneg (Fin a) = Fin (- a)"
| "fneg PInf = NInf"
| "fneg NInf = PInf"
| "fneg NaN = NaN"

fun fadd :: "npfloat \<Rightarrow> npfloat \<Rightarrow> npfloat" where
  "fadd (Fin a) (Fin b) = round64 (a + b)"
| "fadd NaN _ = NaN"
| "fadd _ NaN = NaN"
| "fadd PInf NInf = NaN"
| "fadd NInf PInf = NaN"
| "fadd PInf _ = PInf"
| "fadd _ PInf = PInf"
| "fadd NInf _ = NInf"
| "fadd _ NInf = NInf"

definition fsub :: "npfloat \<Rightarrow> npfloat \<Rightarrow> npfloat" where
  "fsub a b = fadd a (fneg b)"

fun fmul :: "npfloat \<Rightarrow> npfloat \<Rightarrow> npfloat" where
  "fmul (Fin a) (Fin b) = round64 (a * b)"
| "fmul NaN _ = NaN"
| "fmul _ NaN = NaN"
| "fmul (Fin a) PInf = signed_inf a"
| "fmul (Fin a) NInf = signed_inf (- a)"
| "fmul PInf (Fin b) = signed_inf b"
| "fmul NInf (Fin b) = signed_inf (- b)"
| "fmul PInf PInf = PInf"
| "fmul NInf NInf = PInf"
| "fmul PInf NInf = NInf"
| "fmul NInf PInf = NInf"

fun fdiv :: "npfloat \<Rightarrow> npfloat \<Rightarrow> npfloat" where
  "fdiv (Fin a) (Fin b) = (if b = 0 then signed_inf a else round64 (a / b))"
| "fdiv NaN _ = NaN"
| "fdiv _ NaN = NaN"
| "fdiv (Fin a) PInf = Fin 0"
| "fdiv (Fin a) NInf = Fin 0"
| "fdiv PInf (Fin b) = (if b < 0 then NInf else PInf)"
| "fdiv NInf (Fin b) = (if b < 0 then PInf else NInf)"
| "fdiv PInf PInf = NaN"
| "fdiv PInf NInf = NaN"
| "fdiv NInf PInf = NaN"
| "fdiv NInf NInf = NaN"

fun fsqrt :: "npfloat \<Rightarrow> npfloat" where
  "fsqrt (Fin a) = (if a < 0 then NaN else round64 (sqrt a))"
| "fsqrt PInf = PInf"
| "fsqrt NInf = NaN"
| "fsqrt NaN = NaN"

fun fabs :: "npfloat \<Rightarrow> npfloat" where
  "fabs (Fin a) = Fin \<bar>a\<bar>"
| "fabs PInf = PInf"
| "fabs NInf = PInf"
| "fabs NaN = NaN"

fun fless :: "npfloat \<Rightarrow> npfloat \<Rightarrow> bool" where
  "fless (Fin a) (Fin b) = (a < b)"
| "fless NaN _ = False"
| "fless _ NaN = False"
| "fless PInf _ = False"
| "fless _ NInf = False"
| "fless NInf _ = True"
| "fless _ PInf = True"

subsection \<open>Arrays of three components\<close>

text \<open>
  A position or direction is a numpy array of three floats. The operators are numpy's
  elementwise ones; \<open>norm3\<close> is \<open>np.linalg.norm\<close>, the square root of the sum of the
  squared components, each operation rounded, the sum taken in index order.
\<close>

type_synonym array3 = "npfloat \<times> npfloat \<times> npfloat"

fun vadd :: "array3 \<Rightarrow> array3 \<Rightarrow> array3" where
  "vadd (a1, a2, a3) (b1, b2, b3) = (fadd a1 b1, fadd a2 b2, fadd a3 b3)"

fun vsub :: "array3 \<Rightarrow> array3 \<Rightarrow> array3" where
  "vsub (a1, a2, a3) (b1, b2, b3) = (fsub a1 b1, fsub a2 b2, fsub a3 b3)"

fun smul :: "npfloat \<Rightarrow> array3 \<Rightarrow> array3" where
  "smul c (a1, a2, a3) = (fmul c a1, fmul c a2, fmul c a3)"

fun vmul_s :: "array3 \<Rightarrow> npfloat \<Rightarrow> array3" where
  "vmul_s (a1, a2, a3) c = (fmul a1 c, fmul a2 c, fmul a3 c)"

fun vdiv_s :: "array3 \<Rightarrow> npfloat \<Rightarrow> array3" where
  "vdiv_s (a1, a2, a3) c = (fdiv a1 c, fdiv a2 c, fdiv a3 c)"

fun norm3 :: "array3 \<Rightarrow> npfloat" where
  "norm3 (a1, a2, a3) = fsqrt (fadd (fadd (fmul a1 a1) (fmul a2 a2)) (fmul a3 a3))"

section \<open>The fibril notebook\<close>

subsection \<open>Module-level variables and the program state\<close>

text \<open>
  The functions read the module-level variables \<open>radius\<close>, \<open>charge\<close>,
  \<open>dipole_scalar\<close> and \<open>fictitious_charge\<close>; they are passed as a record, and
  \<open>notebook_globals\<close> holds the values the notebook assigns.

  The mutable state is the list \<open>global_position_storage\<close>, whose entries are the
  lists \<open>[pos, charge, radius]\<close>, and the buffers of the numpy arrays the caller holds,
  by address: a view of an array is the same address, a deep copy is a value of its own.
\<close>

record globals =
  radius :: npfloat
  charge :: npfloat
  dipole_scalar :: npfloat
  fictitious_charge :: npfloat

definition notebook_globals :: globals where
  "notebook_globals =
     \<lparr>radius = Fin 15, charge = Fin 2, dipole_scalar = Fin 150, fictitious_charge = Fin 10\<rparr>"

type_synonym point_charge = "array3 \<times> npfloat \<times> npfloat"

record state =
  global_position_storage :: "point_charge list"
  arrays :: "nat \<Rightarrow> array3"

text \<open>
  The exceptions of the two notebooks. The last three are raised by \<open>open\<close>,
  \<open>json.load\<close> and \<open>np.loadtxt\<close>, and pass through the code, which catches nothing.
\<close>

datatype error =
    AssertionError string
  | ValueError
  | KeyError string
  | TypeError
  | AttributeError
  | IndexError
  | OverflowError
  | FileNotFoundError string
  | JSONDecodeError
  | EOFError

text \<open>
  One formatted ATOM line of the PQR text, as the arguments of the \<open>format\<close> call, in
  their order; the fixed-width rendering of the numbers is left out. The text a function
  returns is the list of its lines.
\<close>

record atom_entry =
  record_type :: string
  atom_cnt :: int
  atomname :: string
  alt_loc :: string
  resname :: string
  chain :: string
  residue_cnt :: int
  ins_code :: string
  coords :: array3
  entry_charge :: npfloat
  entry_radius :: npfloat

subsection \<open>Entries\<close>

text \<open>
  \<open>makeAtomEntry\<close> appends a deep copy of \<open>[pos, charge, radius]\<close> to the storage and
  returns the formatted line; \<open>pqrformat\<close> is that line, for the counter that serves as
  atom and as residue number.
\<close>

definition pqrformat :: "int \<Rightarrow> array3 \<Rightarrow> npfloat \<Rightarrow> npfloat \<Rightarrow> atom_entry" where
  "pqrformat counter pos q r =
     \<lparr>record_type = ''ATOM'', atom_cnt = counter, atomname = ''PRT'', alt_loc = ''A'',
      resname = ''PTR'', chain = ''A'', residue_cnt = counter, ins_code = ''0'',
      coords = pos, entry_charge = q, entry_radius = r\<rparr>"

definition makeAtomEntry ::
  "int \<Rightarrow> array3 \<Rightarrow> npfloat \<Rightarrow> npfloat \<Rightarrow> state \<Rightarrow> atom_entry \<times> state" where
  "makeAtomEntry counter pos q r st =
     (pqrformat counter pos q r,
      st\<lparr>global_position_storage := global_position_storage st @ [(pos, q, r)]\<rparr>)"

text \<open>The literal \<open>0.2081943\<close> is the binary64 number nearest to the decimal.\<close>

definition debye_to_electron_angstrom :: npfloat where
  "debye_to_electron_angstrom = round64 (2081943 / 10000000)"

text \<open>
  \<open>np.testing.assert_almost_equal(actual, desired)\<close> with its default of seven
  decimals: when one of the two is not finite it passes if both are NaN or, with no NaN,
  if they are equal; otherwise it passes if
  \<open>abs(desired - actual) < float64(1.5 * 10.0**(-7))\<close>, the power being the binary64
  number nearest to \<open>1e-7\<close>. It raises an AssertionError, as a failed \<open>assert\<close> does;
  of its message, which goes on to quote the two values, the first line is kept.
\<close>

definition assert_almost_equal :: "npfloat \<Rightarrow> npfloat \<Rightarrow> bool" where
  "assert_almost_equal actual desired =
     (if \<not> (isfinite desired \<and> isfinite actual)
      then (if isnan desired \<or> isnan actual then isnan desired \<and> isnan actual
            else desired = actual)
      else fless (fabs (fsub desired actual)) (fmul (Fin (3 / 2)) (round64 (1 / 10 ^ 7))))"

definition makeDipoleEntry ::
  "globals \<Rightarrow> int \<Rightarrow> array3 \<Rightarrow> array3 \<Rightarrow> state \<Rightarrow> (error + atom_entry list) \<times> state" where
  "makeDipoleEntry g counter position dipole_direction st =
     (let (s1, st1) = makeAtomEntry counter position (charge g) (radius g) st;
          dipole_direction' = vdiv_s dipole_direction (norm3 dipole_direction);
          displacement =
            vdiv_s (smul (fmul debye_to_electron_angstrom (dipole_scalar g)) dipole_direction')
                   (fmul (Fin 2) (fictitious_charge g))
      in if \<not> fless (norm3 displacement) (radius g)
         then (Inl (AssertionError ''increase `fictitious_charge`''), st1)
         else
           let (s2, st2) = makeAtomEntry (counter + 1) (vadd position displacement)
                             (fictitious_charge g) (Fin 1) st1;
               (s3, st3) = makeAtomEntry (counter + 2) (vsub position displacement)
                             (fneg (fictitious_charge g)) (Fin 1) st2;
               mu = vadd (vmul_s (vadd position displacement) (fictitious_charge g))
                         (vmul_s (vsub position displacement) (fneg (fictitious_charge g)))
           in if assert_almost_equal (norm3 mu)
                   (fmul (dipole_scalar g) debye_to_electron_angstrom)
              then (Inr [s1, s2, s3], st3)
              else (Inl (AssertionError ''Arrays are not almost equal to 7 decimals''), st3))"

subsection \<open>Fibrils\<close>

text \<open>\<open>range(n)\<close> of a Python integer: empty when \<open>n\<close> is not positive.\<close>

definition range_py :: "int \<Rightarrow> int list" where
  "range_py n = map int [0..<nat n]"

text \<open>
  \<open>makeMonopoleFibril\<close>: \<open>position = initial_position[:]\<close> is a view of the caller's
  array, so \<open>position\<close> is the address \<open>initial_position\<close> itself and
  \<open>position += displacement\<close> writes the caller's buffer.
\<close>

definition monopole_body ::
  "globals \<Rightarrow> array3 \<Rightarrow> nat \<Rightarrow> atom_entry list \<times> state \<Rightarrow> int \<Rightarrow> atom_entry list \<times> state" where
  "monopole_body g displacement position acc counter =
     (let (s, st) = acc;
          (e, st1) = makeAtomEntry (counter + 1) (arrays st position) (charge g) (radius g) st
      in (s @ [e],
          st1\<lparr>arrays := (arrays st1)(position := vadd (arrays st1 position) displacement)\<rparr>))"

definition makeMonopoleFibril ::
  "globals \<Rightarrow> int \<Rightarrow> nat \<Rightarrow> nat \<Rightarrow> state \<Rightarrow> atom_entry list \<times> state" where
  "makeMonopoleFibril g number_of_proteins initial_position direction st =
     (let displacement =
            vdiv_s (smul (fmul (Fin 2) (radius g)) (arrays st direction))
                   (norm3 (arrays st direction))
      in foldl (monopole_body g displacement initial_position) ([], st)
           (range_py number_of_proteins))"

text \<open>
  \<open>makeDipoleFibril\<close>: \<open>position = deepcopy(initial_position)\<close> is a private copy,
  carried by the loop as a value. An exception of \<open>makeDipoleEntry\<close> ends the loop.
\<close>

definition dipole_body ::
  "globals \<Rightarrow> array3 \<Rightarrow> nat \<Rightarrow> (error + atom_entry list) \<times> array3 \<times> state \<Rightarrow> int
     \<Rightarrow> (error + atom_entry list) \<times> array3 \<times> state" where
  "dipole_body g displacement direction acc counter =
     (let (outcome, position, st) = acc
      in case outcome of
           Inl e \<Rightarrow> (Inl e, position, st)
         | Inr s \<Rightarrow>
             (case makeDipoleEntry g (counter + 1) position (arrays st direction) st of
                (Inl e, st1) \<Rightarrow> (Inl e, position, st1)
              | (Inr s', st1) \<Rightarrow> (Inr (s @ s'), vadd position displacement, st1)))"

definition makeDipoleFibril ::
  "globals \<Rightarrow> int \<Rightarrow> nat \<Rightarrow> nat \<Rightarrow> state \<Rightarrow> (error + atom_entry list) \<times> state" where
  "makeDipoleFibril g number_of_proteins initial_position direction st =
     (let displacement =
            vdiv_s (smul (fmul (Fin 2) (radius g)) (arrays st direction))
                   (norm3 (arrays st direction));
          (outcome, position, st') =
            foldl (dipole_body g displacement direction)
              (Inr [], arrays st initial_position, st) (range_py number_of_proteins)
      in (outcome, st'))"

subsection \<open>Electric potential\<close>

text \<open>
  \<open>calcPotential\<close> reads \<open>global_position_storage\<close>; the line it prints is left out.
  \<open>bjerrum_length\<close> is the product of two Python integers.
\<close>

definition bjerrum_length :: npfloat where
  "bjerrum_length = Fin (7 * 80)"

definition potential_body :: "array3 \<Rightarrow> npfloat \<Rightarrow> point_charge \<Rightarrow> npfloat" where
  "potential_body target_position potential entry =
     (let (pos, point_charge, r) = entry;
          distance = norm3 (vsub target_position pos)
      in fadd potential (fdiv point_charge distance))"

definition calcPotential :: "array3 \<Rightarrow> state \<Rightarrow> npfloat" where
  "calcPotential target_position st =
     fmul bjerrum_length
       (foldl (potential_body target_position) (Fin 0) (global_position_storage st))"

subsection \<open>The notebook's example cell\<close>

text \<open>
  The state the example cell starts from: an empty storage, \<open>position\<close> at address 0
  and \<open>fibril_direction\<close> at address 1.
\<close>

definition notebook_state :: state where
  "notebook_state =
     \<lparr>global_position_storage = [],
      arrays = (\<lambda>a. if a = 1 then (Fin 1, Fin 0, Fin 0) else (Fin 0, Fin 0, Fin 0))\<rparr>"

section \<open>The evaporation notebook\<close>


subsection \<open>Loading the dipole moments\<close>











subsection \<open>Alignment\<close>




section \<open>Parts of the computations\<close>

text \<open>
  The values \<open>makeDipoleEntry\<close> computes on its way: the displacement of the two
  auxiliary charges, the dipole moment it reconstructs from them, its two checks, the
  three entries it stores and the three lines it returns.
\<close>

definition dipole_displacement :: "globals \<Rightarrow> array3 \<Rightarrow> array3" where
  "dipole_displacement g dipole_direction =
     vdiv_s (smul (fmul debye_to_electron_angstrom (dipole_scalar g))
                  (vdiv_s dipole_direction (norm3 dipole_direction)))
            (fmul (Fin 2) (fictitious_charge g))"

definition dipole_moment :: "globals \<Rightarrow> array3 \<Rightarrow> array3 \<Rightarrow> array3" where
  "dipole_moment g position dipole_direction =
     vadd (vmul_s (vadd position (dipole_displacement g dipole_direction)) (fictitious_charge g))
          (vmul_s (vsub position (dipole_displacement g dipole_direction))
                  (fneg (fictitious_charge g)))"

definition displacement_check :: "globals \<Rightarrow> array3 \<Rightarrow> bool" where
  "displacement_check g dipole_direction =
     fless (norm3 (dipole_displacement g dipole_direction)) (radius g)"

definition moment_check :: "globals \<Rightarrow> array3 \<Rightarrow> array3 \<Rightarrow> bool" where
  "moment_check g position dipole_direction =
     assert_almost_equal (norm3 (dipole_moment g position dipole_direction))
       (fmul (dipole_scalar g) debye_to_electron_angstrom)"

definition dipole_bead_records :: "globals \<Rightarrow> array3 \<Rightarrow> array3 \<Rightarrow> point_charge list" where
  "dipole_bead_records g position dipole_direction =
     [(position, charge g, radius g),
      (vadd position (dipole_displacement g dipole_direction), fictitious_charge g, Fin 1),
      (vsub position (dipole_displacement g dipole_direction), fneg (fictitious_charge g), Fin 1)]"

definition entry_line :: "int \<Rightarrow> point_charge \<Rightarrow> atom_entry" where
  "entry_line counter entry = (case entry of (pos, q, r) \<Rightarrow> pqrformat counter pos q r)"

definition dipole_bead_lines :: "globals \<Rightarrow> int \<Rightarrow> array3 \<Rightarrow> array3 \<Rightarrow> atom_entry list" where
  "dipole_bead_lines g counter position dipole_direction =
     map2 entry_line [counter, counter + 1, counter + 2]
       (dipole_bead_records g position dipole_direction)"

text \<open>
  The step of the fibril builders, and the centre of bead \<open>i\<close>: the start after
  \<open>i\<close> executions of \<open>position += displacement\<close>.
\<close>

definition fibril_displacement :: "globals \<Rightarrow> array3 \<Rightarrow> array3" where
  "fibril_displacement g direction =
     vdiv_s (smul (fmul (Fin 2) (radius g)) direction) (norm3 direction)"

definition fibril_center :: "globals \<Rightarrow> array3 \<Rightarrow> array3 \<Rightarrow> nat \<Rightarrow> array3" where
  "fibril_center g direction initial_position i =
     ((\<lambda>position. vadd position (fibril_displacement g direction)) ^^ i) initial_position"

section \<open>Rounding to binary64\<close>

lemma rne_nearest:
  assumes "\<bar>t - of_int m\<bar> < 1 / 2"
  shows "rne t = m"
proof -
  have c: "\<lfloor>t\<rfloor> = m \<or> \<lfloor>t\<rfloor> = m - 1" using assms by linarith
  show ?thesis
  proof (cases "\<lfloor>t\<rfloor> = m")
    case True
    have "t - of_int m < 1 / 2" using assms by linarith
    then show ?thesis unfolding rne_def Let_def True by simp
  next
    case False
    then have f: "\<lfloor>t\<rfloor> = m - 1" using c by simp
    have g: "1 / 2 < t - of_int (m - 1)" using assms by (simp; linarith)
    then have h: "\<not> t - of_int (m - 1) < 1 / 2" by linarith
    show ?thesis unfolding rne_def Let_def f using g h by simp
  qed
qed

lemma rne_of_int [simp]: "rne (of_int m) = m"
  by (rule rne_nearest) simp

lemma rne_zero [simp]: "rne 0 = 0"
  using rne_of_int [of 0] by simp

lemma rne_error: "\<bar>of_int (rne t) - t\<bar> \<le> 1 / 2"
  unfolding rne_def Let_def by (simp; linarith)

lemma rne_ge_int: "of_int n \<le> t \<Longrightarrow> n \<le> rne t"
  unfolding rne_def Let_def by (simp; linarith)

lemma rne_le_int: "t \<le> of_int n \<Longrightarrow> rne t \<le> n"
  unfolding rne_def Let_def by (simp; linarith)

lemma expo_eq:
  assumes "2 powi k \<le> \<bar>x\<bar>" and "\<bar>x\<bar> < 2 powi (k + 1)"
  shows "\<lfloor>log 2 \<bar>x\<bar>\<rfloor> = k"
proof -
  have "(0::real) < 2 powi k" by simp
  then have p: "0 < \<bar>x\<bar>" using assms(1) by linarith
  have a: "(2::real) powr (of_int k) = 2 powi k"
    by (rule powr_real_of_int') simp_all
  have "(2::real) powr (of_int (k + 1)) = 2 powi (k + 1)"
    by (rule powr_real_of_int') simp_all
  then have b: "(2::real) powr (of_int k + 1) = 2 powi (k + 1)" by simp
  have "2 powr (of_int k) \<le> \<bar>x\<bar> \<and> \<bar>x\<bar> < 2 powr (of_int k + 1)"
    using assms unfolding a b by simp
  then show ?thesis using floor_log_eq_powr_iff [of "\<bar>x\<bar>" 2 k] p by simp
qed

lemma expo_bounds:
  assumes "x \<noteq> 0"
  shows "2 powi \<lfloor>log 2 \<bar>x\<bar>\<rfloor> \<le> \<bar>x\<bar>" and "\<bar>x\<bar> < 2 powi (\<lfloor>log 2 \<bar>x\<bar>\<rfloor> + 1)"
proof -
  have p: "0 < \<bar>x\<bar>" using assms by simp
  let ?k = "\<lfloor>log 2 \<bar>x\<bar>\<rfloor>"
  have a: "(2::real) powr (of_int ?k) = 2 powi ?k"
    by (rule powr_real_of_int') simp_all
  have "(2::real) powr (of_int (?k + 1)) = 2 powi (?k + 1)"
    by (rule powr_real_of_int') simp_all
  then have b: "(2::real) powr (of_int ?k + 1) = 2 powi (?k + 1)" by simp
  have "2 powr (of_int ?k) \<le> \<bar>x\<bar> \<and> \<bar>x\<bar> < 2 powr (of_int ?k + 1)"
    using floor_log_eq_powr_iff [of "\<bar>x\<bar>" 2 ?k] p by simp
  then show "2 powi ?k \<le> \<bar>x\<bar>" and "\<bar>x\<bar> < 2 powi (?k + 1)"
    unfolding a b by simp_all
qed

lemma powi2_less_cancel:
  assumes "(2::real) powi a < 2 powi b"
  shows "a < b"
proof (rule ccontr)
  assume "\<not> a < b"
  then have "b \<le> a" by simp
  then have "(2::real) powi b \<le> 2 powi a" by (rule power_int_increasing) simp
  then show False using assms by simp
qed

lemma round64_zero [simp]: "round64 0 = Fin 0"
  by (simp add: round64_def)

lemma round64_nearest:
  assumes "2 powi k \<le> \<bar>x\<bar>" and "\<bar>x\<bar> < 2 powi (k + 1)" and "- 1022 \<le> k"
    and "y = of_int m * 2 powi (k - 52)" and "\<bar>x - y\<bar> < 2 powi (k - 53)"
    and "\<bar>y\<bar> < 2 ^ 1024"
  shows "round64 x = Fin y"
proof -
  have "(0::real) < 2 powi k" by simp
  then have "0 < \<bar>x\<bar>" using assms(1) by linarith
  then have nz: "x \<noteq> 0" by auto
  have e: "max \<lfloor>log 2 \<bar>x\<bar>\<rfloor> (- 1022) = k"
    using expo_eq [OF assms(1,2)] assms(3) by simp
  have q: "(0::real) < 2 powi (k - 52)" by simp
  have h: "(2::real) powi (k - 53) = 2 powi (k - 52) / 2"
    by (simp add: power_int_diff)
  have "x / 2 powi (k - 52) - of_int m = (x - y) / 2 powi (k - 52)"
    using q by (simp add: assms(4) field_simps)
  then have "\<bar>x / 2 powi (k - 52) - of_int m\<bar> = \<bar>x - y\<bar> / 2 powi (k - 52)"
    using q by (simp add: abs_divide)
  also have "\<dots> < (2 powi (k - 52) / 2) / 2 powi (k - 52)"
    using assms(5) q unfolding h by (simp add: divide_strict_right_mono)
  also have "\<dots> = 1 / 2" using q by simp
  finally have "rne (x / 2 powi (k - 52)) = m" by (rule rne_nearest)
  then show ?thesis
    using nz assms(6) by (simp add: round64_def e Let_def assms(4))
qed

lemma round64_nearest_num:
  assumes "lo = 2 powi k" and "q = 2 powi (k - 52)" and "- 1022 \<le> k"
    and "lo \<le> \<bar>x\<bar>" and "\<bar>x\<bar> < 2 * lo"
    and "y = of_int m * q" and "2 * \<bar>x - y\<bar> < q" and "\<bar>y\<bar> < 2 ^ 1024"
  shows "round64 x = Fin y"
proof (rule round64_nearest [where k = k and m = m])
  show "2 powi k \<le> \<bar>x\<bar>" using assms(1,4) by simp
  have "(2::real) powi (k + 1) = 2 * 2 powi k" by (simp add: power_int_add)
  then show "\<bar>x\<bar> < 2 powi (k + 1)" using assms(1,5) by simp
  show "- 1022 \<le> k" by (rule assms(3))
  show "y = of_int m * 2 powi (k - 52)" using assms(2,6) by simp
  have "(2::real) powi (k - 53) = 2 powi (k - 52) / 2" by (simp add: power_int_diff)
  then show "\<bar>x - y\<bar> < 2 powi (k - 53)" using assms(2,7) by simp
  show "\<bar>y\<bar> < 2 ^ 1024" by (rule assms(8))
qed

text \<open>The square root, with the conditions on the radicand.\<close>

lemma round64_sqrt_nearest_num:
  assumes "lo = 2 powi k" and "q = 2 powi (k - 52)" and "- 1022 \<le> k"
    and "lo * lo \<le> s" and "s < (2 * lo) * (2 * lo)"
    and "y = of_int m * q" and "q \<le> 2 * y"
    and "(2 * y - q) * (2 * y - q) < 4 * s" and "4 * s < (2 * y + q) * (2 * y + q)"
    and "\<bar>y\<bar> < 2 ^ 1024"
  shows "round64 (sqrt s) = Fin y"
proof (rule round64_nearest_num [OF assms(1,2,3) _ _ assms(6) _ assms(10)])
  have lo: "(0::real) < lo" using assms(1) by simp
  have q: "(0::real) < q" using assms(2) by simp
  have "0 \<le> lo * lo" by simp
  then have s: "0 \<le> s" using assms(4) by linarith
  have a: "lo \<le> sqrt s"
    by (rule real_le_rsqrt) (use assms(4) in \<open>simp add: power2_eq_square\<close>)
  have b: "sqrt s < 2 * lo"
    by (rule real_less_lsqrt) (use assms(5) lo in \<open>simp_all add: power2_eq_square\<close>)
  show "lo \<le> \<bar>sqrt s\<bar>" using a s by simp
  show "\<bar>sqrt s\<bar> < 2 * lo" using b s by simp
  have e: "sqrt (4 * s) = 2 * sqrt s" by (simp add: real_sqrt_mult)
  have "2 * y - q < sqrt (4 * s)"
    by (rule real_less_rsqrt) (use assms(8) in \<open>simp add: power2_eq_square\<close>)
  then have c: "2 * y - q < 2 * sqrt s" unfolding e .
  have "sqrt (4 * s) < 2 * y + q"
    by (rule real_less_lsqrt) (use assms(7,9) q in \<open>simp_all add: power2_eq_square\<close>)
  then have d: "2 * sqrt s < 2 * y + q" unfolding e .
  show "2 * \<bar>sqrt s - y\<bar> < q"
  proof (cases "y \<le> sqrt s")
    case True
    then show ?thesis using d by simp
  next
    case False
    then show ?thesis using c by simp
  qed
qed

text \<open>Overflow and underflow.\<close>

lemma round64_overflow:
  assumes "2 ^ 1024 \<le> \<bar>x\<bar>"
  shows "round64 x = (if 0 < x then PInf else NInf)"
proof -
  have nz: "x \<noteq> 0" using assms by auto
  let ?k = "\<lfloor>log 2 \<bar>x\<bar>\<rfloor>"
  have "(2::real) powi 1024 \<le> \<bar>x\<bar>" using assms by simp
  also have "\<bar>x\<bar> < 2 powi (?k + 1)" by (rule expo_bounds(2) [OF nz])
  finally have "1024 < ?k + 1" by (rule powi2_less_cancel)
  then have k: "1024 \<le> ?k" by simp
  then have e: "max ?k (- 1022) = ?k" by simp
  define q :: real where "q = 2 powi (?k - 52)"
  define c :: int where "c = 2 ^ 52"
  have q: "0 < q" by (simp add: q_def)
  have p: "(2::real) powi ?k = of_int c * q"
    by (simp add: q_def c_def power_int_diff)
  have big: "(2::real) ^ 1024 \<le> 2 powi ?k"
    using k power_int_increasing [of 1024 ?k "2::real"] by simp
  have lo: "of_int c * q \<le> \<bar>x\<bar>" using expo_bounds(1) [OF nz] p by simp
  have "2 ^ 1024 \<le> \<bar>of_int (rne (x / q)) * q\<bar>"
  proof (cases "0 < x")
    case True
    then have "of_int c * q \<le> x" using lo by simp
    then have "of_int c \<le> x / q" using q by (simp add: pos_le_divide_eq)
    then have "c \<le> rne (x / q)" by (rule rne_ge_int)
    then have "(of_int c :: real) \<le> of_int (rne (x / q))" by (simp only: of_int_le_iff)
    then have "of_int c * q \<le> of_int (rne (x / q)) * q"
      using q by (intro mult_right_mono) auto
    then have "2 powi ?k \<le> of_int (rne (x / q)) * q" using p by simp
    then show ?thesis using big by linarith
  next
    case False
    then have "x \<le> - (of_int c * q)" using lo by simp
    then have "x / q \<le> - of_int c" using q by (simp add: pos_divide_le_eq)
    then have "x / q \<le> of_int (- c)" by simp
    then have "rne (x / q) \<le> - c" by (rule rne_le_int)
    then have "(of_int (rne (x / q)) :: real) \<le> of_int (- c)" by (simp only: of_int_le_iff)
    then have "of_int (rne (x / q)) * q \<le> of_int (- c) * q"
      using q by (intro mult_right_mono) auto
    then have "of_int (rne (x / q)) * q \<le> - (2 powi ?k)" using p by simp
    then show ?thesis using big by linarith
  qed
  then show ?thesis using nz by (simp add: round64_def e Let_def q_def)
qed





text \<open>The result of a rounding is never NaN.\<close>

lemma round64_not_nan: "round64 x \<noteq> NaN"
  by (simp add: round64_def Let_def)

section \<open>Operations on finite values\<close>

lemma fadd_Fin: "round64 (a + b) = r \<Longrightarrow> fadd (Fin a) (Fin b) = r"
  by simp

lemma fsub_Fin: "round64 (a - b) = r \<Longrightarrow> fsub (Fin a) (Fin b) = r"
  by (simp add: fsub_def)

lemma fmul_Fin: "round64 (a * b) = r \<Longrightarrow> fmul (Fin a) (Fin b) = r"
  by simp

lemma fdiv_Fin: "b \<noteq> 0 \<Longrightarrow> round64 (a / b) = r \<Longrightarrow> fdiv (Fin a) (Fin b) = r"
  by simp

lemma fsqrt_Fin: "0 \<le> a \<Longrightarrow> round64 (sqrt a) = r \<Longrightarrow> fsqrt (Fin a) = r"
  by simp

lemma fadd_zero [simp]: "fadd (Fin 0) (Fin 0) = Fin 0"
  by simp

lemma fsub_self [simp]: "fsub (Fin a) (Fin a) = Fin 0"
  by (simp add: fsub_def)

lemma fmul_zero_left [simp]: "fmul (Fin 0) (Fin b) = Fin 0"
  by simp

lemma fmul_zero_right [simp]: "fmul (Fin a) (Fin 0) = Fin 0"
  by simp

lemma fdiv_zero_left [simp]: "b \<noteq> 0 \<Longrightarrow> fdiv (Fin 0) (Fin b) = Fin 0"
  by simp

lemma fsqrt_zero [simp]: "fsqrt (Fin 0) = Fin 0"
  by simp

declare fadd.simps(1) [simp del] fmul.simps(1) [simp del] fdiv.simps(1) [simp del] fsqrt.simps(1) [simp del]

lemma fdiv_by_zero: "fdiv (Fin a) (Fin 0) = signed_inf a"
  by (simp add: fdiv.simps(1))

text \<open>The value of \<open>round64\<close> in the range of the normal numbers.\<close>

lemma round64_normal:
  assumes "2 powi (- 1022) \<le> \<bar>x\<bar>"
  shows "\<lfloor>log 2 \<bar>x\<bar>\<rfloor> \<ge> - 1022"
proof -
  have "(0::real) < 2 powi (- 1022)" by simp
  then have nz: "x \<noteq> 0" using assms by auto
  have "2 powi (- 1022) \<le> \<bar>x\<bar>" by (rule assms)
  also have "\<bar>x\<bar> < 2 powi (\<lfloor>log 2 \<bar>x\<bar>\<rfloor> + 1)" by (rule expo_bounds(2) [OF nz])
  finally have "- 1022 < \<lfloor>log 2 \<bar>x\<bar>\<rfloor> + 1" by (rule powi2_less_cancel)
  then show ?thesis by simp
qed

lemma round64_rel:
  assumes "2 powi (- 1022) \<le> \<bar>x\<bar>" and "\<bar>x\<bar> \<le> 2 ^ 1023"
  shows "\<exists>y. round64 x = Fin y \<and> \<bar>y - x\<bar> \<le> \<bar>x\<bar> / 2 ^ 53"
proof -
  have "(0::real) < 2 powi (- 1022)" by simp
  then have nz: "x \<noteq> 0" using assms(1) by auto
  define k where "k = \<lfloor>log 2 \<bar>x\<bar>\<rfloor>"
  have k: "- 1022 \<le> k" unfolding k_def by (rule round64_normal [OF assms(1)])
  then have e: "max k (- 1022) = k" by simp
  have lo: "2 powi k \<le> \<bar>x\<bar>" unfolding k_def by (rule expo_bounds(1) [OF nz])
  define q :: real where "q = 2 powi (k - 52)"
  have qpos: "0 < q" by (simp add: q_def)
  define y where "y = of_int (rne (x / q)) * q"
  have "y - x = (of_int (rne (x / q)) - x / q) * q"
    using qpos by (simp add: y_def field_simps)
  then have "\<bar>y - x\<bar> = \<bar>of_int (rne (x / q)) - x / q\<bar> * q"
    using qpos by (simp add: abs_mult)
  also have "\<dots> \<le> (1 / 2) * q"
    using qpos rne_error [of "x / q"] by (intro mult_right_mono) auto
  also have "(1 / 2) * q = 2 powi k / 2 ^ 53"
  proof -
    have "(2::real) powi (k - 52) = 2 powi k / 2 ^ 52"
      by (simp add: power_int_diff)
    then show ?thesis by (simp add: q_def)
  qed
  also have "\<dots> \<le> \<bar>x\<bar> / 2 ^ 53" using lo by (simp add: divide_right_mono)
  finally have err: "\<bar>y - x\<bar> \<le> \<bar>x\<bar> / 2 ^ 53" .
  have "\<bar>y\<bar> \<le> \<bar>x\<bar> + \<bar>y - x\<bar>" by linarith
  also have "\<dots> \<le> \<bar>x\<bar> + \<bar>x\<bar> / 2 ^ 53" using err by simp
  also have "\<dots> \<le> 2 ^ 1023 + 2 ^ 1023 / 2 ^ 53"
    using assms(2) by (intro add_mono divide_right_mono) auto
  also have "\<dots> < 2 ^ 1024" by simp
  finally have fin: "\<not> 2 ^ 1024 \<le> \<bar>y\<bar>" by simp
  have "round64 x = Fin y"
    using nz fin unfolding round64_def Let_def k_def [symmetric] e q_def [symmetric] y_def [symmetric]
    by simp
  then show ?thesis using err by blast
qed



section \<open>The dipole bead\<close>

text \<open>The three outcomes of \<open>makeDipoleEntry\<close>, by its two checks.\<close>

lemma makeDipoleEntry_cases:
  "makeDipoleEntry g counter position u st =
     (if \<not> displacement_check g u
      then (Inl (AssertionError ''increase `fictitious_charge`''),
            st\<lparr>global_position_storage :=
                 global_position_storage st @ [(position, charge g, radius g)]\<rparr>)
      else if moment_check g position u
      then (Inr (dipole_bead_lines g counter position u),
            st\<lparr>global_position_storage :=
                 global_position_storage st @ dipole_bead_records g position u\<rparr>)
      else (Inl (AssertionError ''Arrays are not almost equal to 7 decimals''),
            st\<lparr>global_position_storage :=
                 global_position_storage st @ dipole_bead_records g position u\<rparr>))"
  by (simp add: makeDipoleEntry_def makeAtomEntry_def displacement_check_def moment_check_def
        dipole_displacement_def dipole_moment_def dipole_bead_records_def dipole_bead_lines_def
        entry_line_def Let_def)

lemma makeDipoleEntry_fails:
  assumes "\<not> displacement_check g u"
  shows "makeDipoleEntry g counter position u st =
     (Inl (AssertionError ''increase `fictitious_charge`''),
      st\<lparr>global_position_storage :=
           global_position_storage st @ [(position, charge g, radius g)]\<rparr>)"
  using assms by (simp add: makeDipoleEntry_cases)

lemma makeDipoleEntry_succeeds:
  assumes "displacement_check g u" and "moment_check g position u"
  shows "makeDipoleEntry g counter position u st =
     (Inr (dipole_bead_lines g counter position u),
      st\<lparr>global_position_storage :=
           global_position_storage st @ dipole_bead_records g position u\<rparr>)"
  using assms by (simp add: makeDipoleEntry_cases)

lemma makeDipoleEntry_Inr_iff:
  "(\<exists>lines. fst (makeDipoleEntry g counter position u st) = Inr lines)
     \<longleftrightarrow> displacement_check g u \<and> moment_check g position u"
  by (simp add: makeDipoleEntry_cases)

lemma makeDipoleEntry_arrays: "arrays (snd (makeDipoleEntry g counter position u st)) = arrays st"
  by (simp add: makeDipoleEntry_cases)

lemma makeDipoleEntry_storage_prefix:
  "take (length (global_position_storage st))
     (global_position_storage (snd (makeDipoleEntry g counter position u st)))
   = global_position_storage st"
  by (simp add: makeDipoleEntry_cases)

section \<open>Fibril loops\<close>

lemma fibril_center_0: "fibril_center g u p 0 = p"
  by (simp add: fibril_center_def)

lemma fibril_center_Suc:
  "fibril_center g u p (Suc i) = vadd (fibril_center g u p i) (fibril_displacement g u)"
  by (simp add: fibril_center_def)

lemma monopole_body_eq:
  "monopole_body g d a (s, st) counter =
     (s @ [pqrformat (counter + 1) (arrays st a) (charge g) (radius g)],
      st\<lparr>global_position_storage := global_position_storage st @ [(arrays st a, charge g, radius g)],
         arrays := (arrays st)(a := vadd (arrays st a) d)\<rparr>)"
  by (simp add: monopole_body_def makeAtomEntry_def)

lemma monopole_loop:
  "foldl (monopole_body g (fibril_displacement g u) a) ([], st) (map int [0..<k]) =
     (map (\<lambda>i. pqrformat (int i + 1) (fibril_center g u (arrays st a) i) (charge g) (radius g))
        [0..<k],
      st\<lparr>global_position_storage := global_position_storage st @
            map (\<lambda>i. (fibril_center g u (arrays st a) i, charge g, radius g)) [0..<k],
         arrays := (arrays st)(a := fibril_center g u (arrays st a) k)\<rparr>)"
proof (induction k)
  case 0
  show ?case by (simp add: fibril_center_0)
next
  case (Suc k)
  show ?case
    by (simp only: upt_Suc_append [OF le0] map_append foldl_append Suc.IH list.map foldl.simps
          monopole_body_eq fibril_center_Suc)
       (simp add: fun_upd_def cong: if_cong)
qed

lemma makeMonopoleFibril_eq:
  "makeMonopoleFibril g n a dir st =
     (map (\<lambda>i. pqrformat (int i + 1) (fibril_center g (arrays st dir) (arrays st a) i)
               (charge g) (radius g)) [0..<nat n],
      st\<lparr>global_position_storage := global_position_storage st @
            map (\<lambda>i. (fibril_center g (arrays st dir) (arrays st a) i, charge g, radius g))
              [0..<nat n],
         arrays := (arrays st)(a := fibril_center g (arrays st dir) (arrays st a) (nat n))\<rparr>)"
  unfolding makeMonopoleFibril_def range_py_def Let_def fibril_displacement_def [symmetric]
  by (rule monopole_loop)

lemma dipole_body_Inl:
  "dipole_body g d dir (Inl e, p, st) counter = (Inl e, p, st)"
  by (simp add: dipole_body_def)

lemma dipole_body_Inr:
  "dipole_body g d dir (Inr s, p, st) counter =
     (if displacement_check g (arrays st dir) \<and> moment_check g p (arrays st dir)
      then (Inr (s @ dipole_bead_lines g (counter + 1) p (arrays st dir)), vadd p d,
            st\<lparr>global_position_storage :=
                 global_position_storage st @ dipole_bead_records g p (arrays st dir)\<rparr>)
      else (fst (makeDipoleEntry g (counter + 1) p (arrays st dir) st), p,
            snd (makeDipoleEntry g (counter + 1) p (arrays st dir) st)))"
  by (simp add: dipole_body_def makeDipoleEntry_cases)

lemma dipole_body_fails:
  assumes "\<not> (displacement_check g (arrays st dir) \<and> moment_check g p (arrays st dir))"
  shows "\<exists>e. fst (dipole_body g d dir (Inr s, p, st) counter) = Inl e"
  using assms by (auto simp add: dipole_body_def makeDipoleEntry_cases)

text \<open>
  The loop of \<open>makeDipoleFibril\<close> over \<open>range(k)\<close> when the checks of the first
  \<open>k\<close> beads pass.
\<close>

lemma dipole_loop:
  assumes "\<forall>i<k. displacement_check g (arrays st dir)
                  \<and> moment_check g (fibril_center g u p i) (arrays st dir)"
  shows "foldl (dipole_body g (fibril_displacement g u) dir) (Inr [], p, st) (map int [0..<k]) =
     (Inr (concat (map (\<lambda>i. dipole_bead_lines g (int i + 1) (fibril_center g u p i) (arrays st dir))
                     [0..<k])),
      fibril_center g u p k,
      st\<lparr>global_position_storage := global_position_storage st @
            concat (map (\<lambda>i. dipole_bead_records g (fibril_center g u p i) (arrays st dir))
                      [0..<k])\<rparr>)"
  using assms
proof (induction k)
  case 0
  show ?case by (simp add: fibril_center_0)
next
  case (Suc k)
  have prev: "\<forall>i<k. displacement_check g (arrays st dir)
                  \<and> moment_check g (fibril_center g u p i) (arrays st dir)"
    using Suc.prems by (meson less_Suc_eq)
  have here: "displacement_check g (arrays st dir)
                  \<and> moment_check g (fibril_center g u p k) (arrays st dir)"
    using Suc.prems by (meson lessI)
  show ?case
    by (simp only: upt_Suc_append [OF le0] map_append foldl_append Suc.IH [OF prev] list.map
          foldl.simps dipole_body_Inr)
       (simp add: here fibril_center_Suc)
qed

lemma dipole_loop_Inl:
  "fst (foldl (dipole_body g d dir) (Inl e, p, st) cs) = Inl e"
  by (induction cs arbitrary: p st) (simp_all add: dipole_body_Inl)


lemma makeDipoleFibril_eq:
  "makeDipoleFibril g n a dir st =
     (case foldl (dipole_body g (fibril_displacement g (arrays st dir)) dir)
             (Inr [], arrays st a, st) (map int [0..<nat n]) of
        (outcome, position, st') \<Rightarrow> (outcome, st'))"
  by (simp add: makeDipoleFibril_def range_py_def Let_def fibril_displacement_def)

lemma makeDipoleFibril_succeeds:
  assumes "\<forall>i<nat n. displacement_check g (arrays st dir)
             \<and> moment_check g (fibril_center g (arrays st dir) (arrays st a) i) (arrays st dir)"
  shows "makeDipoleFibril g n a dir st =
     (Inr (concat (map (\<lambda>i. dipole_bead_lines g (int i + 1)
                              (fibril_center g (arrays st dir) (arrays st a) i) (arrays st dir))
                     [0..<nat n])),
      st\<lparr>global_position_storage := global_position_storage st @
            concat (map (\<lambda>i. dipole_bead_records g
                              (fibril_center g (arrays st dir) (arrays st a) i) (arrays st dir))
                      [0..<nat n])\<rparr>)"
  unfolding makeDipoleFibril_eq dipole_loop [OF assms] by simp


text \<open>No array is written by \<open>makeDipoleFibril\<close>.\<close>

lemma dipole_body_arrays:
  "arrays (snd (snd (dipole_body g d dir acc counter))) = arrays (snd (snd acc))"
proof (cases acc)
  case (fields outcome position st)
  show ?thesis
  proof (cases outcome)
    case (Inl e)
    then show ?thesis by (simp add: fields dipole_body_def)
  next
    case (Inr s)
    obtain res st1 where m: "makeDipoleEntry g (counter + 1) position (arrays st dir) st = (res, st1)"
      by (cases "makeDipoleEntry g (counter + 1) position (arrays st dir) st")
    have "arrays st1 = arrays st" using makeDipoleEntry_arrays [of g "counter + 1" position "arrays st dir" st]
      by (simp add: m)
    then show ?thesis by (cases res) (simp_all add: fields Inr dipole_body_def m)
  qed
qed

lemma dipole_loop_arrays:
  "arrays (snd (snd (foldl (dipole_body g d dir) acc cs))) = arrays (snd (snd acc))"
  by (induction cs arbitrary: acc) (simp_all add: dipole_body_arrays)

lemma makeDipoleFibril_arrays:
  "arrays (snd (makeDipoleFibril g n a dir st)) = arrays st"
proof -
  have "arrays (snd (snd (foldl (dipole_body g (fibril_displacement g (arrays st dir)) dir)
            (Inr [], arrays st a, st) (map int [0..<nat n])))) = arrays st"
    by (simp add: dipole_loop_arrays)
  then show ?thesis
    unfolding makeDipoleFibril_eq by (simp add: split_beta)
qed


section \<open>Overflow and underflow of a product\<close>

lemma fmul_square_overflow:
  assumes "2 ^ 512 \<le> \<bar>x\<bar>"
  shows "fmul (Fin x) (Fin x) = PInf"
proof -
  have "(2::real) ^ 512 * 2 ^ 512 \<le> \<bar>x\<bar> * \<bar>x\<bar>"
    using assms by (intro mult_mono) auto
  then have big: "2 ^ 1024 \<le> \<bar>x * x\<bar>" by (simp add: abs_mult)
  have "(0::real) < 2 ^ 512" by simp
  then have "x \<noteq> 0" using assms by auto
  then have "0 < x * x" using zero_less_mult_iff [of x x] by auto
  then show ?thesis using round64_overflow [OF big] by (simp add: fmul.simps(1))
qed


lemma fmul_finite_big:
  assumes "2 ^ 513 \<le> \<bar>a * b\<bar>" and "\<bar>a * b\<bar> \<le> 2 ^ 1023"
  shows "\<exists>y. fmul (Fin a) (Fin b) = Fin y \<and> 2 ^ 512 \<le> \<bar>y\<bar>"
proof -
  have "(2::real) powi (- 1022) \<le> 2 ^ 513" by (simp add: power_int_minus)
  then have lo: "2 powi (- 1022) \<le> \<bar>a * b\<bar>" using assms(1) by linarith
  from round64_rel [OF lo assms(2)] obtain y
    where y: "round64 (a * b) = Fin y" and e: "\<bar>y - a * b\<bar> \<le> \<bar>a * b\<bar> / 2 ^ 53"
    by blast
  have "\<bar>a * b\<bar> / 2 ^ 53 \<le> \<bar>a * b\<bar> / 2" by (intro divide_left_mono) auto
  then have "\<bar>a * b\<bar> / 2 \<le> \<bar>y\<bar>" using e by linarith
  moreover have "(2::real) ^ 512 \<le> 2 ^ 513 / 2" by simp
  ultimately have "2 ^ 512 \<le> \<bar>y\<bar>" using assms(1) by linarith
  then show ?thesis using y by (simp add: fmul.simps(1))
qed

section \<open>Values that are not finite\<close>

lemma fadd_not_finite_right: "\<not> isfinite b \<Longrightarrow> \<not> isfinite (fadd a b)"
  by (cases a; cases b) simp_all

lemma fadd_not_finite_left: "\<not> isfinite a \<Longrightarrow> \<not> isfinite (fadd a b)"
  by (cases a; cases b) simp_all

lemma fdiv_zero_not_finite: "\<not> isfinite (fdiv q (Fin 0))"
  by (cases q) (simp_all add: fdiv.simps(1) signed_inf_def)

lemma fmul_not_finite: "c \<noteq> 0 \<Longrightarrow> \<not> isfinite x \<Longrightarrow> \<not> isfinite (fmul (Fin c) x)"
  by (cases x) (simp_all add: signed_inf_def)

lemma fdiv_PInf: "isfinite x \<Longrightarrow> fdiv x PInf = Fin 0"
  by (cases x) simp_all

lemma norm3_zero: "norm3 (Fin 0, Fin 0, Fin 0) = Fin 0"
  by simp

section \<open>Values of the float operations\<close>

lemma round64_debye: "round64 (2081943 / 10000000) = Fin (3750495087602645 / 18014398509481984)"
  by (rule round64_nearest_num [where k = "- 3" and m = 7500990175205290 and lo = "1 / 8" and q = "1 / 36028797018963968"])
     simp_all

lemma round64_tenth: "round64 (1 / 10 ^ 7) = Fin (944473296573929 / 9444732965739290427392)"
  by (rule round64_nearest_num [where k = "- 24" and m = 7555786372591432 and lo = "1 / 16777216" and q = "1 / 75557863725914323419136"])
     simp_all

lemma fl_1: "fmul (Fin (3750495087602645 / 18014398509481984)) (Fin 150) = Fin (8790222861568699 / 281474976710656)"
  by (rule fmul_Fin, rule round64_nearest_num [where k = 4 and m = 8790222861568699 and lo = 16 and q = "1 / 281474976710656"])
     simp_all

lemma fl_2: "fmul (Fin 1) (Fin 1) = Fin 1"
  by (rule fmul_Fin, rule round64_nearest_num [where k = 0 and m = 4503599627370496 and lo = 1 and q = "1 / 4503599627370496"])
     simp_all

lemma fl_3: "fadd (Fin 1) (Fin 0) = Fin 1"
  by (rule fadd_Fin, rule round64_nearest_num [where k = 0 and m = 4503599627370496 and lo = 1 and q = "1 / 4503599627370496"])
     simp_all

lemma fl_4: "fsqrt (Fin 1) = Fin 1"
  by (rule fsqrt_Fin, simp, rule round64_sqrt_nearest_num [where k = 0 and m = 4503599627370496 and lo = 1 and q = "1 / 4503599627370496"])
     simp_all

lemma fl_5: "fdiv (Fin 1) (Fin 1) = Fin 1"
  by (rule fdiv_Fin, simp, rule round64_nearest_num [where k = 0 and m = 4503599627370496 and lo = 1 and q = "1 / 4503599627370496"])
     simp_all

lemma fl_6: "fmul (Fin (8790222861568699 / 281474976710656)) (Fin 1) = Fin (8790222861568699 / 281474976710656)"
  by (rule fmul_Fin, rule round64_nearest_num [where k = 4 and m = 8790222861568699 and lo = 16 and q = "1 / 281474976710656"])
     simp_all

lemma fl_7: "fmul (Fin 2) (Fin 10) = Fin 20"
  by (rule fmul_Fin, rule round64_nearest_num [where k = 4 and m = 5629499534213120 and lo = 16 and q = "1 / 281474976710656"])
     simp_all

lemma fl_8: "fdiv (Fin (8790222861568699 / 281474976710656)) (Fin 20) = Fin (7032178289254959 / 4503599627370496)"
  by (rule fdiv_Fin, simp, rule round64_nearest_num [where k = 0 and m = 7032178289254959 and lo = 1 and q = "1 / 4503599627370496"])
     simp_all

lemma fl_9: "fmul (Fin (7032178289254959 / 4503599627370496)) (Fin (7032178289254959 / 4503599627370496)) = Fin (1372555721631219 / 562949953421312)"
  by (rule fmul_Fin, rule round64_nearest_num [where k = 1 and m = 5490222886524876 and lo = 2 and q = "1 / 2251799813685248"])
     simp_all

lemma fl_10: "fadd (Fin (1372555721631219 / 562949953421312)) (Fin 0) = Fin (1372555721631219 / 562949953421312)"
  by (rule fadd_Fin, rule round64_nearest_num [where k = 1 and m = 5490222886524876 and lo = 2 and q = "1 / 2251799813685248"])
     simp_all

lemma fl_11: "fsqrt (Fin (1372555721631219 / 562949953421312)) = Fin (7032178289254959 / 4503599627370496)"
  by (rule fsqrt_Fin, simp, rule round64_sqrt_nearest_num [where k = 0 and m = 7032178289254959 and lo = 1 and q = "1 / 4503599627370496"])
     simp_all

lemma fl_12: "fadd (Fin 0) (Fin (7032178289254959 / 4503599627370496)) = Fin (7032178289254959 / 4503599627370496)"
  by (rule fadd_Fin, rule round64_nearest_num [where k = 0 and m = 7032178289254959 and lo = 1 and q = "1 / 4503599627370496"])
     simp_all

lemma fl_13: "fmul (Fin (7032178289254959 / 4503599627370496)) (Fin 10) = Fin (8790222861568699 / 562949953421312)"
  by (rule fmul_Fin, rule round64_nearest_num [where k = 3 and m = 8790222861568699 and lo = 8 and q = "1 / 562949953421312"])
     simp_all

lemma fl_14: "fsub (Fin 0) (Fin (7032178289254959 / 4503599627370496)) = Fin (- (7032178289254959 / 4503599627370496))"
  by (rule fsub_Fin, rule round64_nearest_num [where k = 0 and m = "- 7032178289254959" and lo = 1 and q = "1 / 4503599627370496"])
     simp_all

lemma fl_15: "fmul (Fin (- (7032178289254959 / 4503599627370496))) (Fin (- 10)) = Fin (8790222861568699 / 562949953421312)"
  by (rule fmul_Fin, rule round64_nearest_num [where k = 3 and m = 8790222861568699 and lo = 8 and q = "1 / 562949953421312"])
     simp_all

lemma fl_16: "fadd (Fin (8790222861568699 / 562949953421312)) (Fin (8790222861568699 / 562949953421312)) = Fin (8790222861568699 / 281474976710656)"
  by (rule fadd_Fin, rule round64_nearest_num [where k = 4 and m = 8790222861568699 and lo = 16 and q = "1 / 281474976710656"])
     simp_all

lemma fl_17: "fmul (Fin (8790222861568699 / 281474976710656)) (Fin (8790222861568699 / 281474976710656)) = Fin (8578473260195119 / 8796093022208)"
  by (rule fmul_Fin, rule round64_nearest_num [where k = 9 and m = 8578473260195119 and lo = 512 and q = "1 / 8796093022208"])
     simp_all

lemma fl_18: "fadd (Fin (8578473260195119 / 8796093022208)) (Fin 0) = Fin (8578473260195119 / 8796093022208)"
  by (rule fadd_Fin, rule round64_nearest_num [where k = 9 and m = 8578473260195119 and lo = 512 and q = "1 / 8796093022208"])
     simp_all

lemma fl_19: "fsqrt (Fin (8578473260195119 / 8796093022208)) = Fin (8790222861568699 / 281474976710656)"
  by (rule fsqrt_Fin, simp, rule round64_sqrt_nearest_num [where k = 4 and m = 8790222861568699 and lo = 16 and q = "1 / 281474976710656"])
     simp_all

lemma fl_20: "fmul (Fin 150) (Fin (3750495087602645 / 18014398509481984)) = Fin (8790222861568699 / 281474976710656)"
  by (rule fmul_Fin, rule round64_nearest_num [where k = 4 and m = 8790222861568699 and lo = 16 and q = "1 / 281474976710656"])
     simp_all

lemma fl_21: "fadd (Fin 30) (Fin (7032178289254959 / 4503599627370496)) = Fin (8883760444398115 / 281474976710656)"
  by (rule fadd_Fin, rule round64_nearest_num [where k = 4 and m = 8883760444398115 and lo = 16 and q = "1 / 281474976710656"])
     simp_all

lemma fl_22: "fmul (Fin (8883760444398115 / 281474976710656)) (Fin 10) = Fin (2776175138874411 / 8796093022208)"
  by (rule fmul_Fin, rule round64_nearest_num [where k = 8 and m = 5552350277748822 and lo = 256 and q = "1 / 17592186044416"])
     simp_all

lemma fl_23: "fsub (Fin 30) (Fin (7032178289254959 / 4503599627370496)) = Fin (8004738158241245 / 281474976710656)"
  by (rule fsub_Fin, rule round64_nearest_num [where k = 4 and m = 8004738158241245 and lo = 16 and q = "1 / 281474976710656"])
     simp_all

lemma fl_24: "fmul (Fin (8004738158241245 / 281474976710656)) (Fin (- 10)) = Fin (- (2501480674450389 / 8796093022208))"
  by (rule fmul_Fin, rule round64_nearest_num [where k = 8 and m = "- 5002961348900778" and lo = 256 and q = "1 / 17592186044416"])
     simp_all

lemma fl_25: "fadd (Fin (2776175138874411 / 8796093022208)) (Fin (- (2501480674450389 / 8796093022208))) = Fin (137347232212011 / 4398046511104)"
  by (rule fadd_Fin, rule round64_nearest_num [where k = 4 and m = 8790222861568704 and lo = 16 and q = "1 / 281474976710656"])
     simp_all

lemma fl_26: "fmul (Fin (137347232212011 / 4398046511104)) (Fin (137347232212011 / 4398046511104)) = Fin (8578473260195129 / 8796093022208)"
  by (rule fmul_Fin, rule round64_nearest_num [where k = 9 and m = 8578473260195129 and lo = 512 and q = "1 / 8796093022208"])
     simp_all

lemma fl_27: "fadd (Fin (8578473260195129 / 8796093022208)) (Fin 0) = Fin (8578473260195129 / 8796093022208)"
  by (rule fadd_Fin, rule round64_nearest_num [where k = 9 and m = 8578473260195129 and lo = 512 and q = "1 / 8796093022208"])
     simp_all

lemma fl_28: "fsqrt (Fin (8578473260195129 / 8796093022208)) = Fin (137347232212011 / 4398046511104)"
  by (rule fsqrt_Fin, simp, rule round64_sqrt_nearest_num [where k = 4 and m = 8790222861568704 and lo = 16 and q = "1 / 281474976710656"])
     simp_all

lemma fl_29: "fsub (Fin (8790222861568699 / 281474976710656)) (Fin (137347232212011 / 4398046511104)) = Fin (- (5 / 281474976710656))"
  by (rule fsub_Fin, rule round64_nearest_num [where k = "- 46" and m = "- 5629499534213120" and lo = "1 / 70368744177664" and q = "1 / 316912650057057350374175801344"])
     simp_all

lemma fl_30: "fadd (Fin 1000000000) (Fin (7032178289254959 / 4503599627370496)) = Fin (8388608013098453 / 8388608)"
  by (rule fadd_Fin, rule round64_nearest_num [where k = 29 and m = 8388608013098453 and lo = 536870912 and q = "1 / 8388608"])
     simp_all

lemma fl_31: "fmul (Fin (8388608013098453 / 8388608)) (Fin 10) = Fin (5242880008186533 / 524288)"
  by (rule fmul_Fin, rule round64_nearest_num [where k = 33 and m = 5242880008186533 and lo = 8589934592 and q = "1 / 524288"])
     simp_all

lemma fl_32: "fsub (Fin 1000000000) (Fin (7032178289254959 / 4503599627370496)) = Fin (8388607986901547 / 8388608)"
  by (rule fsub_Fin, rule round64_nearest_num [where k = 29 and m = 8388607986901547 and lo = 536870912 and q = "1 / 8388608"])
     simp_all

lemma fl_33: "fmul (Fin (8388607986901547 / 8388608)) (Fin (- 10)) = Fin (- (5242879991813467 / 524288))"
  by (rule fmul_Fin, rule round64_nearest_num [where k = 33 and m = "- 5242879991813467" and lo = 8589934592 and q = "1 / 524288"])
     simp_all

lemma fl_34: "fadd (Fin (5242880008186533 / 524288)) (Fin (- (5242879991813467 / 524288))) = Fin (8186533 / 262144)"
  by (rule fadd_Fin, rule round64_nearest_num [where k = 4 and m = 8790222875656192 and lo = 16 and q = "1 / 281474976710656"])
     simp_all

lemma fl_35: "fmul (Fin (8186533 / 262144)) (Fin (8186533 / 262144)) = Fin (67019322560089 / 68719476736)"
  by (rule fmul_Fin, rule round64_nearest_num [where k = 9 and m = 8578473287691392 and lo = 512 and q = "1 / 8796093022208"])
     simp_all

lemma fl_36: "fadd (Fin (67019322560089 / 68719476736)) (Fin 0) = Fin (67019322560089 / 68719476736)"
  by (rule fadd_Fin, rule round64_nearest_num [where k = 9 and m = 8578473287691392 and lo = 512 and q = "1 / 8796093022208"])
     simp_all

lemma fl_37: "fsqrt (Fin (67019322560089 / 68719476736)) = Fin (8186533 / 262144)"
  by (rule fsqrt_Fin, simp, rule round64_sqrt_nearest_num [where k = 4 and m = 8790222875656192 and lo = 16 and q = "1 / 281474976710656"])
     simp_all

lemma fl_38: "fsub (Fin (8790222861568699 / 281474976710656)) (Fin (8186533 / 262144)) = Fin (- (14087493 / 281474976710656))"
  by (rule fsub_Fin, rule round64_nearest_num [where k = "- 25" and m = "- 7563165214703616" and lo = "1 / 33554432" and q = "1 / 151115727451828646838272"])
     simp_all

lemma fl_39: "fmul (Fin (3 / 2)) (Fin (944473296573929 / 9444732965739290427392)) = Fin (2833419889721787 / 18889465931478580854784)"
  by (rule fmul_Fin, rule round64_nearest_num [where k = "- 23" and m = 5666839779443574 and lo = "1 / 8388608" and q = "1 / 37778931862957161709568"])
     simp_all

lemma fl_40: "fmul (Fin 2) (Fin 15) = Fin 30"
  by (rule fmul_Fin, rule round64_nearest_num [where k = 4 and m = 8444249301319680 and lo = 16 and q = "1 / 281474976710656"])
     simp_all

lemma fl_41: "fmul (Fin 30) (Fin 1) = Fin 30"
  by (rule fmul_Fin, rule round64_nearest_num [where k = 4 and m = 8444249301319680 and lo = 16 and q = "1 / 281474976710656"])
     simp_all

lemma fl_42: "fdiv (Fin 30) (Fin 1) = Fin 30"
  by (rule fdiv_Fin, simp, rule round64_nearest_num [where k = 4 and m = 8444249301319680 and lo = 16 and q = "1 / 281474976710656"])
     simp_all

lemma fl_43: "fadd (Fin 0) (Fin 30) = Fin 30"
  by (rule fadd_Fin, rule round64_nearest_num [where k = 4 and m = 8444249301319680 and lo = 16 and q = "1 / 281474976710656"])
     simp_all

lemma fl_44: "fadd (Fin 30) (Fin 30) = Fin 60"
  by (rule fadd_Fin, rule round64_nearest_num [where k = 5 and m = 8444249301319680 and lo = 32 and q = "1 / 140737488355328"])
     simp_all

lemma fl_45: "fadd (Fin 60) (Fin 30) = Fin 90"
  by (rule fadd_Fin, rule round64_nearest_num [where k = 6 and m = 6333186975989760 and lo = 64 and q = "1 / 70368744177664"])
     simp_all

lemma fl_46: "fadd (Fin 1) (Fin 1) = Fin 2"
  by (rule fadd_Fin, rule round64_nearest_num [where k = 1 and m = 4503599627370496 and lo = 2 and q = "1 / 2251799813685248"])
     simp_all

lemma fl_47: "fadd (Fin 2) (Fin 0) = Fin 2"
  by (rule fadd_Fin, rule round64_nearest_num [where k = 1 and m = 4503599627370496 and lo = 2 and q = "1 / 2251799813685248"])
     simp_all

lemma fl_48: "fsqrt (Fin 2) = Fin (6369051672525773 / 4503599627370496)"
  by (rule fsqrt_Fin, simp, rule round64_sqrt_nearest_num [where k = 0 and m = 6369051672525773 and lo = 1 and q = "1 / 4503599627370496"])
     simp_all

lemma fl_49: "fdiv (Fin 30) (Fin (6369051672525773 / 4503599627370496)) = Fin (5970985942992911 / 281474976710656)"
  by (rule fdiv_Fin, simp, rule round64_nearest_num [where k = 4 and m = 5970985942992911 and lo = 16 and q = "1 / 281474976710656"])
     simp_all

lemma fl_50: "fadd (Fin 0) (Fin (5970985942992911 / 281474976710656)) = Fin (5970985942992911 / 281474976710656)"
  by (rule fadd_Fin, rule round64_nearest_num [where k = 4 and m = 5970985942992911 and lo = 16 and q = "1 / 281474976710656"])
     simp_all

lemma fl_51: "fsub (Fin (5970985942992911 / 281474976710656)) (Fin 0) = Fin (5970985942992911 / 281474976710656)"
  by (rule fsub_Fin, rule round64_nearest_num [where k = 4 and m = 5970985942992911 and lo = 16 and q = "1 / 281474976710656"])
     simp_all

lemma fl_52: "fmul (Fin (5970985942992911 / 281474976710656)) (Fin (5970985942992911 / 281474976710656)) = Fin (3958241859993599 / 8796093022208)"
  by (rule fmul_Fin, rule round64_nearest_num [where k = 8 and m = 7916483719987198 and lo = 256 and q = "1 / 17592186044416"])
     simp_all

lemma fl_53: "fadd (Fin (3958241859993599 / 8796093022208)) (Fin (3958241859993599 / 8796093022208)) = Fin (3958241859993599 / 4398046511104)"
  by (rule fadd_Fin, rule round64_nearest_num [where k = 9 and m = 7916483719987198 and lo = 512 and q = "1 / 8796093022208"])
     simp_all

lemma fl_54: "fadd (Fin (3958241859993599 / 4398046511104)) (Fin 0) = Fin (3958241859993599 / 4398046511104)"
  by (rule fadd_Fin, rule round64_nearest_num [where k = 9 and m = 7916483719987198 and lo = 512 and q = "1 / 8796093022208"])
     simp_all

lemma fl_55: "fsqrt (Fin (3958241859993599 / 4398046511104)) = Fin (8444249301319679 / 281474976710656)"
  by (rule fsqrt_Fin, simp, rule round64_sqrt_nearest_num [where k = 4 and m = 8444249301319679 and lo = 16 and q = "1 / 281474976710656"])
     simp_all

lemma fl_56: "fsub (Fin 3) (Fin 0) = Fin 3"
  by (rule fsub_Fin, rule round64_nearest_num [where k = 1 and m = 6755399441055744 and lo = 2 and q = "1 / 2251799813685248"])
     simp_all

lemma fl_57: "fsub (Fin 4) (Fin 0) = Fin 4"
  by (rule fsub_Fin, rule round64_nearest_num [where k = 2 and m = 4503599627370496 and lo = 4 and q = "1 / 1125899906842624"])
     simp_all

lemma fl_58: "fmul (Fin 3) (Fin 3) = Fin 9"
  by (rule fmul_Fin, rule round64_nearest_num [where k = 3 and m = 5066549580791808 and lo = 8 and q = "1 / 562949953421312"])
     simp_all

lemma fl_59: "fmul (Fin 4) (Fin 4) = Fin 16"
  by (rule fmul_Fin, rule round64_nearest_num [where k = 4 and m = 4503599627370496 and lo = 16 and q = "1 / 281474976710656"])
     simp_all

lemma fl_60: "fadd (Fin 9) (Fin 16) = Fin 25"
  by (rule fadd_Fin, rule round64_nearest_num [where k = 4 and m = 7036874417766400 and lo = 16 and q = "1 / 281474976710656"])
     simp_all

lemma fl_61: "fadd (Fin 25) (Fin 0) = Fin 25"
  by (rule fadd_Fin, rule round64_nearest_num [where k = 4 and m = 7036874417766400 and lo = 16 and q = "1 / 281474976710656"])
     simp_all

lemma fl_62: "fsqrt (Fin 25) = Fin 5"
  by (rule fsqrt_Fin, simp, rule round64_sqrt_nearest_num [where k = 2 and m = 5629499534213120 and lo = 4 and q = "1 / 1125899906842624"])
     simp_all

lemma fl_63: "fdiv (Fin 1) (Fin 5) = Fin (3602879701896397 / 18014398509481984)"
  by (rule fdiv_Fin, simp, rule round64_nearest_num [where k = "- 3" and m = 7205759403792794 and lo = "1 / 8" and q = "1 / 36028797018963968"])
     simp_all

lemma fl_64: "fadd (Fin 0) (Fin (3602879701896397 / 18014398509481984)) = Fin (3602879701896397 / 18014398509481984)"
  by (rule fadd_Fin, rule round64_nearest_num [where k = "- 3" and m = 7205759403792794 and lo = "1 / 8" and q = "1 / 36028797018963968"])
     simp_all

lemma fl_65: "fmul (Fin 560) (Fin (3602879701896397 / 18014398509481984)) = Fin 112"
  by (rule fmul_Fin, rule round64_nearest_num [where k = 6 and m = 7881299347898368 and lo = 64 and q = "1 / 70368744177664"])
     simp_all

lemma fl_66: "fdiv (Fin 1) (Fin (3750495087602645 / 18014398509481984)) = Fin (675991073508391 / 140737488355328)"
  by (rule fdiv_Fin, simp, rule round64_nearest_num [where k = 2 and m = 5407928588067128 and lo = 4 and q = "1 / 1125899906842624"])
     simp_all

lemma fl_67: "fmul (Fin 1) (Fin (675991073508391 / 140737488355328)) = Fin (675991073508391 / 140737488355328)"
  by (rule fmul_Fin, rule round64_nearest_num [where k = 2 and m = 5407928588067128 and lo = 4 and q = "1 / 1125899906842624"])
     simp_all

lemma fl_68: "fmul (Fin (675991073508391 / 140737488355328)) (Fin (675991073508391 / 140737488355328)) = Fin (6493848040108601 / 281474976710656)"
  by (rule fmul_Fin, rule round64_nearest_num [where k = 4 and m = 6493848040108601 and lo = 16 and q = "1 / 281474976710656"])
     simp_all

lemma fl_69: "fadd (Fin 0) (Fin (6493848040108601 / 281474976710656)) = Fin (6493848040108601 / 281474976710656)"
  by (rule fadd_Fin, rule round64_nearest_num [where k = 4 and m = 6493848040108601 and lo = 16 and q = "1 / 281474976710656"])
     simp_all

lemma fl_70: "fsqrt (Fin (6493848040108601 / 281474976710656)) = Fin (675991073508391 / 140737488355328)"
  by (rule fsqrt_Fin, simp, rule round64_sqrt_nearest_num [where k = 2 and m = 5407928588067128 and lo = 4 and q = "1 / 1125899906842624"])
     simp_all

lemma fl_71: "fdiv (Fin (675991073508391 / 140737488355328)) (Fin (675991073508391 / 140737488355328)) = Fin 1"
  by (rule fdiv_Fin, simp, rule round64_nearest_num [where k = 0 and m = 4503599627370496 and lo = 1 and q = "1 / 4503599627370496"])
     simp_all

lemma fl_72: "fmul (Fin 2) (Fin (675991073508391 / 140737488355328)) = Fin (675991073508391 / 70368744177664)"
  by (rule fmul_Fin, rule round64_nearest_num [where k = 3 and m = 5407928588067128 and lo = 8 and q = "1 / 562949953421312"])
     simp_all

lemma fl_73: "fmul (Fin (3 / 2)) (Fin (675991073508391 / 140737488355328)) = Fin (2027973220525173 / 281474976710656)"
  by (rule fmul_Fin, rule round64_nearest_num [where k = 2 and m = 8111892882100692 and lo = 4 and q = "1 / 1125899906842624"])
     simp_all

lemma fl_74: "fadd (Fin (6493848040108601 / 281474976710656)) (Fin (6493848040108601 / 281474976710656)) = Fin (6493848040108601 / 140737488355328)"
  by (rule fadd_Fin, rule round64_nearest_num [where k = 5 and m = 6493848040108601 and lo = 32 and q = "1 / 140737488355328"])
     simp_all

lemma fl_75: "fmul (Fin (675991073508391 / 70368744177664)) (Fin (675991073508391 / 70368744177664)) = Fin (6493848040108601 / 70368744177664)"
  by (rule fmul_Fin, rule round64_nearest_num [where k = 6 and m = 6493848040108601 and lo = 64 and q = "1 / 70368744177664"])
     simp_all

lemma fl_76: "fadd (Fin (6493848040108601 / 140737488355328)) (Fin (6493848040108601 / 70368744177664)) = Fin (4870386030081451 / 35184372088832)"
  by (rule fadd_Fin, rule round64_nearest_num [where k = 7 and m = 4870386030081451 and lo = 128 and q = "1 / 35184372088832"])
     simp_all

lemma fl_77: "fsqrt (Fin (4870386030081451 / 35184372088832)) = Fin (6623332803087173 / 562949953421312)"
  by (rule fsqrt_Fin, simp, rule round64_sqrt_nearest_num [where k = 3 and m = 6623332803087173 and lo = 8 and q = "1 / 562949953421312"])
     simp_all

lemma fl_78: "fdiv (Fin (675991073508391 / 140737488355328)) (Fin (6623332803087173 / 562949953421312)) = Fin (7354347395230781 / 18014398509481984)"
  by (rule fdiv_Fin, simp, rule round64_nearest_num [where k = "- 2" and m = 7354347395230781 and lo = "1 / 4" and q = "1 / 18014398509481984"])
     simp_all

lemma fl_79: "fdiv (Fin (675991073508391 / 70368744177664)) (Fin (6623332803087173 / 562949953421312)) = Fin (7354347395230781 / 9007199254740992)"
  by (rule fdiv_Fin, simp, rule round64_nearest_num [where k = "- 1" and m = 7354347395230781 and lo = "1 / 2" and q = "1 / 9007199254740992"])
     simp_all

lemma fl_80: "fmul (Fin (7354347395230781 / 18014398509481984)) (Fin (7354347395230781 / 18014398509481984)) = Fin (1501199875790165 / 9007199254740992)"
  by (rule fmul_Fin, rule round64_nearest_num [where k = "- 3" and m = 6004799503160660 and lo = "1 / 8" and q = "1 / 36028797018963968"])
     simp_all

lemma fl_81: "fadd (Fin 0) (Fin (1501199875790165 / 9007199254740992)) = Fin (1501199875790165 / 9007199254740992)"
  by (rule fadd_Fin, rule round64_nearest_num [where k = "- 3" and m = 6004799503160660 and lo = "1 / 8" and q = "1 / 36028797018963968"])
     simp_all

lemma fl_82: "fdiv (Fin (1501199875790165 / 9007199254740992)) (Fin 1) = Fin (1501199875790165 / 9007199254740992)"
  by (rule fdiv_Fin, simp, rule round64_nearest_num [where k = "- 3" and m = 6004799503160660 and lo = "1 / 8" and q = "1 / 36028797018963968"])
     simp_all

lemma fl_83: "fmul (Fin (7354347395230781 / 9007199254740992)) (Fin (7354347395230781 / 9007199254740992)) = Fin (1501199875790165 / 2251799813685248)"
  by (rule fmul_Fin, rule round64_nearest_num [where k = "- 1" and m = 6004799503160660 and lo = "1 / 2" and q = "1 / 9007199254740992"])
     simp_all

lemma fl_84: "fadd (Fin 0) (Fin (1501199875790165 / 2251799813685248)) = Fin (1501199875790165 / 2251799813685248)"
  by (rule fadd_Fin, rule round64_nearest_num [where k = "- 1" and m = 6004799503160660 and lo = "1 / 2" and q = "1 / 9007199254740992"])
     simp_all

lemma fl_85: "fdiv (Fin (1501199875790165 / 2251799813685248)) (Fin 1) = Fin (1501199875790165 / 2251799813685248)"
  by (rule fdiv_Fin, simp, rule round64_nearest_num [where k = "- 1" and m = 6004799503160660 and lo = "1 / 2" and q = "1 / 9007199254740992"])
     simp_all

lemma fl_86: "fmul (Fin (3750495087602645 / 18014398509481984)) (Fin 99) = Fin (5801547088635341 / 281474976710656)"
  by (rule fmul_Fin, rule round64_nearest_num [where k = 4 and m = 5801547088635341 and lo = 16 and q = "1 / 281474976710656"])
     simp_all

lemma fl_87: "fmul (Fin (5801547088635341 / 281474976710656)) (Fin 1) = Fin (5801547088635341 / 281474976710656)"
  by (rule fmul_Fin, rule round64_nearest_num [where k = 4 and m = 5801547088635341 and lo = 16 and q = "1 / 281474976710656"])
     simp_all

lemma fl_88: "fmul (Fin 2) (Fin 50) = Fin 100"
  by (rule fmul_Fin, rule round64_nearest_num [where k = 6 and m = 7036874417766400 and lo = 64 and q = "1 / 70368744177664"])
     simp_all

lemma fl_89: "fdiv (Fin (5801547088635341 / 281474976710656)) (Fin 100) = Fin (1856495068363309 / 9007199254740992)"
  by (rule fdiv_Fin, simp, rule round64_nearest_num [where k = "- 3" and m = 7425980273453236 and lo = "1 / 8" and q = "1 / 36028797018963968"])
     simp_all

lemma fl_90: "fmul (Fin (1856495068363309 / 9007199254740992)) (Fin (1856495068363309 / 9007199254740992)) = Fin (6122345188787803 / 144115188075855872)"
  by (rule fmul_Fin, rule round64_nearest_num [where k = "- 5" and m = 6122345188787803 and lo = "1 / 32" and q = "1 / 144115188075855872"])
     simp_all

lemma fl_91: "fadd (Fin (6122345188787803 / 144115188075855872)) (Fin 0) = Fin (6122345188787803 / 144115188075855872)"
  by (rule fadd_Fin, rule round64_nearest_num [where k = "- 5" and m = 6122345188787803 and lo = "1 / 32" and q = "1 / 144115188075855872"])
     simp_all

lemma fl_92: "fsqrt (Fin (6122345188787803 / 144115188075855872)) = Fin (1856495068363309 / 9007199254740992)"
  by (rule fsqrt_Fin, simp, rule round64_sqrt_nearest_num [where k = "- 3" and m = 7425980273453236 and lo = "1 / 8" and q = "1 / 36028797018963968"])
     simp_all

lemma fl_93: "fadd (Fin 0) (Fin (1856495068363309 / 9007199254740992)) = Fin (1856495068363309 / 9007199254740992)"
  by (rule fadd_Fin, rule round64_nearest_num [where k = "- 3" and m = 7425980273453236 and lo = "1 / 8" and q = "1 / 36028797018963968"])
     simp_all

lemma fl_94: "fmul (Fin (1856495068363309 / 9007199254740992)) (Fin 50) = Fin (5801547088635341 / 562949953421312)"
  by (rule fmul_Fin, rule round64_nearest_num [where k = 3 and m = 5801547088635341 and lo = 8 and q = "1 / 562949953421312"])
     simp_all

lemma fl_95: "fsub (Fin 0) (Fin (1856495068363309 / 9007199254740992)) = Fin (- (1856495068363309 / 9007199254740992))"
  by (rule fsub_Fin, rule round64_nearest_num [where k = "- 3" and m = "- 7425980273453236" and lo = "1 / 8" and q = "1 / 36028797018963968"])
     simp_all

lemma fl_96: "fmul (Fin (- (1856495068363309 / 9007199254740992))) (Fin (- 50)) = Fin (5801547088635341 / 562949953421312)"
  by (rule fmul_Fin, rule round64_nearest_num [where k = 3 and m = 5801547088635341 and lo = 8 and q = "1 / 562949953421312"])
     simp_all

lemma fl_97: "fadd (Fin (5801547088635341 / 562949953421312)) (Fin (5801547088635341 / 562949953421312)) = Fin (5801547088635341 / 281474976710656)"
  by (rule fadd_Fin, rule round64_nearest_num [where k = 4 and m = 5801547088635341 and lo = 16 and q = "1 / 281474976710656"])
     simp_all

lemma fl_98: "fmul (Fin (5801547088635341 / 281474976710656)) (Fin (5801547088635341 / 281474976710656)) = Fin (7473565904281987 / 17592186044416)"
  by (rule fmul_Fin, rule round64_nearest_num [where k = 8 and m = 7473565904281987 and lo = 256 and q = "1 / 17592186044416"])
     simp_all

lemma fl_99: "fadd (Fin (7473565904281987 / 17592186044416)) (Fin 0) = Fin (7473565904281987 / 17592186044416)"
  by (rule fadd_Fin, rule round64_nearest_num [where k = 8 and m = 7473565904281987 and lo = 256 and q = "1 / 17592186044416"])
     simp_all

lemma fl_100: "fsqrt (Fin (7473565904281987 / 17592186044416)) = Fin (5801547088635341 / 281474976710656)"
  by (rule fsqrt_Fin, simp, rule round64_sqrt_nearest_num [where k = 4 and m = 5801547088635341 and lo = 16 and q = "1 / 281474976710656"])
     simp_all

lemma fl_101: "fmul (Fin 99) (Fin (3750495087602645 / 18014398509481984)) = Fin (5801547088635341 / 281474976710656)"
  by (rule fmul_Fin, rule round64_nearest_num [where k = 4 and m = 5801547088635341 and lo = 16 and q = "1 / 281474976710656"])
     simp_all

lemmas float_facts =
  fl_1 fl_2 fl_3 fl_4 fl_5 fl_6 fl_7 fl_8 fl_9 fl_10
  fl_11 fl_12 fl_13 fl_14 fl_15 fl_16 fl_17 fl_18 fl_19 fl_20
  fl_21 fl_22 fl_23 fl_24 fl_25 fl_26 fl_27 fl_28 fl_29 fl_30
  fl_31 fl_32 fl_33 fl_34 fl_35 fl_36 fl_37 fl_38 fl_39 fl_40
  fl_41 fl_42 fl_43 fl_44 fl_45 fl_46 fl_47 fl_48 fl_49 fl_50
  fl_51 fl_52 fl_53 fl_54 fl_55 fl_56 fl_57 fl_58 fl_59 fl_60
  fl_61 fl_62 fl_63 fl_64 fl_65 fl_66 fl_67 fl_68 fl_69 fl_70
  fl_71 fl_72 fl_73 fl_74 fl_75 fl_76 fl_77 fl_78 fl_79 fl_80
  fl_81 fl_82 fl_83 fl_84 fl_85 fl_86 fl_87 fl_88 fl_89 fl_90
  fl_91 fl_92 fl_93 fl_94 fl_95 fl_96 fl_97 fl_98 fl_99 fl_100
  fl_101

section \<open>The notebook's values\<close>

lemma debye_eq: "debye_to_electron_angstrom = Fin (3750495087602645 / 18014398509481984)"
  unfolding debye_to_electron_angstrom_def by (rule round64_debye)


lemma assert_almost_equal_Fin:
  "assert_almost_equal (Fin a) (Fin w)
     = fless (fabs (fsub (Fin w) (Fin a))) (Fin (2833419889721787 / 18889465931478580854784))"
  unfolding assert_almost_equal_def round64_tenth by (simp add: float_facts)

lemma notebook_arrays:
  "arrays notebook_state 0 = (Fin 0, Fin 0, Fin 0)"
  "arrays notebook_state (Suc 0) = (Fin 1, Fin 0, Fin 0)"
  by (simp_all add: notebook_state_def)

lemma notebook_fields:
  "radius notebook_globals = Fin 15" "charge notebook_globals = Fin 2"
  "dipole_scalar notebook_globals = Fin 150" "fictitious_charge notebook_globals = Fin 10"
  by (simp_all add: notebook_globals_def)

lemma dipole_displacement_radius:
  "dipole_displacement (g\<lparr>radius := r\<rparr>) u = dipole_displacement g u"
  by (simp add: dipole_displacement_def)

lemma notebook_dipole_displacement:
  "dipole_displacement notebook_globals (Fin 1, Fin 0, Fin 0) = (Fin (7032178289254959 / 4503599627370496), Fin 0, Fin 0)"
  by (simp add: dipole_displacement_def notebook_fields debye_eq float_facts)

lemma notebook_displacement_check:
  "displacement_check notebook_globals (Fin 1, Fin 0, Fin 0)"
  by (simp add: displacement_check_def notebook_dipole_displacement float_facts
        notebook_fields)

lemma small_radius_displacement_check:
  "\<not> displacement_check (notebook_globals\<lparr>radius := Fin 1\<rparr>) (Fin 1, Fin 0, Fin 0)"
  by (simp add: displacement_check_def dipole_displacement_radius notebook_dipole_displacement
        float_facts)

lemma notebook_desired: "fmul (dipole_scalar notebook_globals) debye_to_electron_angstrom = Fin (8790222861568699 / 281474976710656)"
  by (simp add: notebook_fields debye_eq float_facts)

lemma notebook_dipole_moment:
  "dipole_moment notebook_globals (Fin 0, Fin 0, Fin 0) (Fin 1, Fin 0, Fin 0) = (Fin (8790222861568699 / 281474976710656), Fin 0, Fin 0)"
  "dipole_moment notebook_globals (Fin 30, Fin 0, Fin 0) (Fin 1, Fin 0, Fin 0) = (Fin (137347232212011 / 4398046511104), Fin 0, Fin 0)"
  "dipole_moment notebook_globals (Fin 1000000000, Fin 0, Fin 0) (Fin 1, Fin 0, Fin 0) = (Fin (8186533 / 262144), Fin 0, Fin 0)"
  by (simp_all add: dipole_moment_def notebook_dipole_displacement notebook_fields float_facts)

lemma notebook_moment_norm:
  "norm3 (dipole_moment notebook_globals (Fin 0, Fin 0, Fin 0) (Fin 1, Fin 0, Fin 0)) = Fin (8790222861568699 / 281474976710656)"
  "norm3 (dipole_moment notebook_globals (Fin 30, Fin 0, Fin 0) (Fin 1, Fin 0, Fin 0)) = Fin (137347232212011 / 4398046511104)"
  "norm3 (dipole_moment notebook_globals (Fin 1000000000, Fin 0, Fin 0) (Fin 1, Fin 0, Fin 0))
     = Fin (8186533 / 262144)"
  by (simp_all add: notebook_dipole_moment float_facts)

lemma notebook_moment_check:
  "moment_check notebook_globals (Fin 0, Fin 0, Fin 0) (Fin 1, Fin 0, Fin 0)"
  "moment_check notebook_globals (Fin 30, Fin 0, Fin 0) (Fin 1, Fin 0, Fin 0)"
  "moment_check notebook_globals (Fin 1000000000, Fin 0, Fin 0) (Fin 1, Fin 0, Fin 0)"
  by (simp_all add: moment_check_def notebook_moment_norm notebook_desired
        assert_almost_equal_Fin float_facts)

lemma notebook_bead_records:
  "dipole_bead_records notebook_globals (Fin 0, Fin 0, Fin 0) (Fin 1, Fin 0, Fin 0) =
     [((Fin 0, Fin 0, Fin 0), Fin 2, Fin 15), ((Fin (7032178289254959 / 4503599627370496), Fin 0, Fin 0), Fin 10, Fin 1),
      ((Fin (- (7032178289254959 / 4503599627370496)), Fin 0, Fin 0), Fin (- 10), Fin 1)]"
  "dipole_bead_records notebook_globals (Fin 30, Fin 0, Fin 0) (Fin 1, Fin 0, Fin 0) =
     [((Fin 30, Fin 0, Fin 0), Fin 2, Fin 15), ((Fin (8883760444398115 / 281474976710656), Fin 0, Fin 0), Fin 10, Fin 1),
      ((Fin (8004738158241245 / 281474976710656), Fin 0, Fin 0), Fin (- 10), Fin 1)]"
  by (simp_all add: dipole_bead_records_def notebook_dipole_displacement notebook_fields
        float_facts)

lemma notebook_fibril_displacement:
  "fibril_displacement notebook_globals (Fin 1, Fin 0, Fin 0) = (Fin 30, Fin 0, Fin 0)"
  by (simp add: fibril_displacement_def notebook_fields float_facts)

lemma notebook_fibril_center:
  "fibril_center notebook_globals (Fin 1, Fin 0, Fin 0) (Fin 0, Fin 0, Fin 0) 0 = (Fin 0, Fin 0, Fin 0)"
  "fibril_center notebook_globals (Fin 1, Fin 0, Fin 0) (Fin 0, Fin 0, Fin 0) (Suc 0)
     = (Fin 30, Fin 0, Fin 0)"
  "fibril_center notebook_globals (Fin 1, Fin 0, Fin 0) (Fin 0, Fin 0, Fin 0) 2 = (Fin 60, Fin 0, Fin 0)"
  "fibril_center notebook_globals (Fin 1, Fin 0, Fin 0) (Fin 0, Fin 0, Fin 0) 3 = (Fin 90, Fin 0, Fin 0)"
  by (simp_all add: fibril_center_def notebook_fibril_displacement numeral_2_eq_2 numeral_3_eq_3
        float_facts)

lemma upt_2: "[0..<2] = [0, Suc 0]"
  by (simp add: numeral_2_eq_2)

lemma upt_3: "[0..<3] = [0, Suc 0, 2]"
  by (simp add: numeral_3_eq_3 numeral_2_eq_2)

lemma notebook_dipole_fibril:
  "makeDipoleFibril notebook_globals 2 0 1 notebook_state =
     (Inr (dipole_bead_lines notebook_globals 1 (Fin 0, Fin 0, Fin 0) (Fin 1, Fin 0, Fin 0)
           @ dipole_bead_lines notebook_globals 2 (Fin 30, Fin 0, Fin 0) (Fin 1, Fin 0, Fin 0)),
      notebook_state\<lparr>global_position_storage :=
        dipole_bead_records notebook_globals (Fin 0, Fin 0, Fin 0) (Fin 1, Fin 0, Fin 0)
        @ dipole_bead_records notebook_globals (Fin 30, Fin 0, Fin 0) (Fin 1, Fin 0, Fin 0)\<rparr>)"
proof -
  have "\<forall>i<nat 2. displacement_check notebook_globals (arrays notebook_state 1)
          \<and> moment_check notebook_globals
               (fibril_center notebook_globals (arrays notebook_state 1) (arrays notebook_state 0) i)
               (arrays notebook_state 1)"
    by (auto simp add: less_2_cases_iff notebook_arrays notebook_fibril_center
          notebook_displacement_check notebook_moment_check)
  from makeDipoleFibril_succeeds [OF this] show ?thesis
    by (simp add: upt_2 notebook_arrays notebook_fibril_center notebook_state_def)
qed

lemma notebook_monopole_fibril:
  "makeMonopoleFibril notebook_globals 3 0 1 notebook_state =
     ([pqrformat 1 (Fin 0, Fin 0, Fin 0) (Fin 2) (Fin 15),
       pqrformat 2 (Fin 30, Fin 0, Fin 0) (Fin 2) (Fin 15),
       pqrformat 3 (Fin 60, Fin 0, Fin 0) (Fin 2) (Fin 15)],
      notebook_state\<lparr>global_position_storage :=
          [((Fin 0, Fin 0, Fin 0), Fin 2, Fin 15), ((Fin 30, Fin 0, Fin 0), Fin 2, Fin 15),
           ((Fin 60, Fin 0, Fin 0), Fin 2, Fin 15)],
        arrays := (arrays notebook_state)(0 := (Fin 90, Fin 0, Fin 0))\<rparr>)"
  unfolding makeMonopoleFibril_eq
  by (simp add: upt_3 notebook_arrays notebook_fibril_center notebook_fields)
     (simp add: notebook_state_def)

section \<open>The potential evaluator\<close>

lemma bjerrum_length_eq: "bjerrum_length = Fin 560"
  by (simp add: bjerrum_length_def)

lemma potential_loop_not_finite_acc:
  "\<not> isfinite acc \<Longrightarrow> \<not> isfinite (foldl (potential_body target) acc cs)"
proof (induction cs arbitrary: acc)
  case Nil
  then show ?case by simp
next
  case (Cons c cs)
  obtain pos q r where c: "c = (pos, q, r)" by (cases c)
  have "\<not> isfinite (potential_body target acc c)"
    using Cons.prems by (simp add: c potential_body_def fadd_not_finite_left)
  then show ?case using Cons.IH by simp
qed

lemma potential_loop_singular:
  assumes "(pos, q, r) \<in> set cs" and "norm3 (vsub target pos) = Fin 0"
  shows "\<not> isfinite (foldl (potential_body target) acc cs)"
  using assms(1)
proof (induction cs arbitrary: acc)
  case Nil
  then show ?case by simp
next
  case (Cons c cs)
  show ?case
  proof (cases "c = (pos, q, r)")
    case True
    have "\<not> isfinite (potential_body target acc c)"
      by (simp add: True potential_body_def assms(2) fadd_not_finite_right fdiv_zero_not_finite)
    then show ?thesis using potential_loop_not_finite_acc by simp
  next
    case False
    then have "(pos, q, r) \<in> set cs" using Cons.prems by simp
    then show ?thesis using Cons.IH by simp
  qed
qed


text \<open>
  C3, as the code has it. \<open>calcPotential\<close> has no check of the distance and raises
  nothing: when the distance from the target to some stored charge is zero, the division
  yields an infinity or NaN, and the value returned is an infinity or NaN, whatever the
  other charges are.
\<close>

theorem calcPotential_singular:
  assumes "(pos, q, r) \<in> set (global_position_storage st)"
    and "norm3 (vsub target pos) = Fin 0"
  shows "\<not> isfinite (calcPotential target st)"
  unfolding calcPotential_def bjerrum_length_eq
  by (rule fmul_not_finite) (simp_all add: potential_loop_singular [OF assms])

theorem calcPotential_singular_witness:
  "\<not> isfinite (calcPotential (Fin 1, Fin 2, Fin 3)
      (notebook_state\<lparr>global_position_storage :=
         [((Fin 0, Fin 0, Fin 0), Fin 2, Fin 15), ((Fin 1, Fin 2, Fin 3), Fin (- 10), Fin 1)]\<rparr>))"
  by (rule calcPotential_singular
        [where pos = "(Fin 1, Fin 2, Fin 3)" and q = "Fin (- 10)" and r = "Fin 1"])
     simp_all

text \<open>
  C3 as stated fails: with one charge of 2 at the origin and the target at the origin, the
  evaluator returns plus infinity, and no error.
\<close>

theorem calcPotential_singular_counterexample:
  "calcPotential (Fin 0, Fin 0, Fin 0)
      (notebook_state\<lparr>global_position_storage := [((Fin 0, Fin 0, Fin 0), Fin 2, Fin 15)]\<rparr>)
   = PInf"
  by (simp add: calcPotential_def bjerrum_length_eq potential_body_def fdiv_by_zero signed_inf_def)






section \<open>Properties of the dipole bead\<close>

lemma assert_almost_equal_finite:
  assumes "assert_almost_equal (Fin a) (Fin w)"
  shows "\<exists>e. fsub (Fin w) (Fin a) = Fin e \<and> \<bar>e\<bar> < 2833419889721787 / 18889465931478580854784"
  using assms unfolding assert_almost_equal_Fin
  by (cases "fsub (Fin w) (Fin a)") simp_all

text \<open>
  C1. If \<open>makeDipoleEntry\<close> returns, both of its checks passed: the computed length
  of the displacement is less than the radius, and the magnitude of the dipole moment
  reconstructed from the two auxiliary charges passed \<open>assert_almost_equal\<close> against
  \<open>dipole_scalar * 0.2081943\<close>. When both numbers are finite this means that their
  rounded difference is less than the binary64 value of \<open>1.5e-7\<close> in absolute value:
  an absolute tolerance, not a relative one of \<open>1e-9\<close>.
\<close>

theorem makeDipoleEntry_moment_checked:
  assumes "fst (makeDipoleEntry g counter position dipole_direction st) = Inr lines"
  shows "displacement_check g dipole_direction
         \<and> assert_almost_equal (norm3 (dipole_moment g position dipole_direction))
             (fmul (dipole_scalar g) debye_to_electron_angstrom)
         \<and> (norm3 (dipole_moment g position dipole_direction) = Fin actual
              \<and> fmul (dipole_scalar g) debye_to_electron_angstrom = Fin desired \<longrightarrow>
            (\<exists>e. fsub (Fin desired) (Fin actual) = Fin e
                 \<and> \<bar>e\<bar> < 2833419889721787 / 18889465931478580854784))"
proof -
  have "\<exists>lines. fst (makeDipoleEntry g counter position dipole_direction st) = Inr lines"
    using assms by blast
  then have c: "displacement_check g dipole_direction \<and> moment_check g position dipole_direction"
    by (simp only: makeDipoleEntry_Inr_iff)
  then have m: "assert_almost_equal (norm3 (dipole_moment g position dipole_direction))
             (fmul (dipole_scalar g) debye_to_electron_angstrom)"
    by (simp add: moment_check_def)
  show ?thesis
  proof (intro conjI impI)
    show "displacement_check g dipole_direction" using c by simp
    show "assert_almost_equal (norm3 (dipole_moment g position dipole_direction))
             (fmul (dipole_scalar g) debye_to_electron_angstrom)" by (rule m)
    assume "norm3 (dipole_moment g position dipole_direction) = Fin actual
              \<and> fmul (dipole_scalar g) debye_to_electron_angstrom = Fin desired"
    then have "assert_almost_equal (Fin actual) (Fin desired)" using m by simp
    then show "\<exists>e. fsub (Fin desired) (Fin actual) = Fin e
                 \<and> \<bar>e\<bar> < 2833419889721787 / 18889465931478580854784"
      by (rule assert_almost_equal_finite)
  qed
qed

lemma notebook_bead:
  "makeDipoleEntry notebook_globals counter (Fin 0, Fin 0, Fin 0) (Fin 1, Fin 0, Fin 0) st =
     (Inr (dipole_bead_lines notebook_globals counter (Fin 0, Fin 0, Fin 0) (Fin 1, Fin 0, Fin 0)),
      st\<lparr>global_position_storage := global_position_storage st @
           dipole_bead_records notebook_globals (Fin 0, Fin 0, Fin 0) (Fin 1, Fin 0, Fin 0)\<rparr>)"
  by (rule makeDipoleEntry_succeeds [OF notebook_displacement_check notebook_moment_check(1)])

lemma notebook_bead_far:
  "makeDipoleEntry notebook_globals counter (Fin 1000000000, Fin 0, Fin 0) (Fin 1, Fin 0, Fin 0) st =
     (Inr (dipole_bead_lines notebook_globals counter (Fin 1000000000, Fin 0, Fin 0)
             (Fin 1, Fin 0, Fin 0)),
      st\<lparr>global_position_storage := global_position_storage st @
           dipole_bead_records notebook_globals (Fin 1000000000, Fin 0, Fin 0)
             (Fin 1, Fin 0, Fin 0)\<rparr>)"
  by (rule makeDipoleEntry_succeeds [OF notebook_displacement_check notebook_moment_check(3)])

theorem makeDipoleEntry_moment_checked_witness:
  "fst (makeDipoleEntry notebook_globals 1 (Fin 0, Fin 0, Fin 0) (Fin 1, Fin 0, Fin 0) notebook_state)
     = Inr (dipole_bead_lines notebook_globals 1 (Fin 0, Fin 0, Fin 0) (Fin 1, Fin 0, Fin 0))
   \<and> displacement_check notebook_globals (Fin 1, Fin 0, Fin 0)
   \<and> assert_almost_equal
        (norm3 (dipole_moment notebook_globals (Fin 0, Fin 0, Fin 0) (Fin 1, Fin 0, Fin 0)))
        (fmul (dipole_scalar notebook_globals) debye_to_electron_angstrom)
   \<and> norm3 (dipole_moment notebook_globals (Fin 0, Fin 0, Fin 0) (Fin 1, Fin 0, Fin 0))
       = Fin (8790222861568699 / 281474976710656)
   \<and> fmul (dipole_scalar notebook_globals) debye_to_electron_angstrom
       = Fin (8790222861568699 / 281474976710656)"
proof -
  have r: "fst (makeDipoleEntry notebook_globals 1 (Fin 0, Fin 0, Fin 0) (Fin 1, Fin 0, Fin 0)
                  notebook_state)
           = Inr (dipole_bead_lines notebook_globals 1 (Fin 0, Fin 0, Fin 0) (Fin 1, Fin 0, Fin 0))"
    by (simp add: notebook_bead)
  from makeDipoleEntry_moment_checked [OF r] r show ?thesis
    by (simp add: notebook_moment_norm notebook_desired)
qed

text \<open>
  C1, the input on which the claim fails: the notebook's bead at
  \<open>(1e9, 0, 0)\<close>. The construction is valid and the call returns; the magnitude of
  the reconstructed moment, \<open>31.229145050048828\<close>, differs from
  \<open>150 * 0.2081943\<close> by more than \<open>1e-9\<close> of it.
\<close>

theorem makeDipoleEntry_moment_checked_counterexample:
  "fst (makeDipoleEntry notebook_globals 1 (Fin 1000000000, Fin 0, Fin 0) (Fin 1, Fin 0, Fin 0)
          notebook_state)
     = Inr (dipole_bead_lines notebook_globals 1 (Fin 1000000000, Fin 0, Fin 0) (Fin 1, Fin 0, Fin 0))
   \<and> fless (norm3 (dipole_displacement notebook_globals (Fin 1, Fin 0, Fin 0)))
        (radius notebook_globals)
   \<and> norm3 (dipole_moment notebook_globals (Fin 1000000000, Fin 0, Fin 0) (Fin 1, Fin 0, Fin 0))
       = Fin (8186533 / 262144)
   \<and> (150 * (2081943 / 10000000)) / 10 ^ 9
       < \<bar>8186533 / 262144 - 150 * (2081943 / 10000000 :: real)\<bar>"
  using notebook_displacement_check
  by (simp add: notebook_bead_far notebook_moment_norm displacement_check_def)

text \<open>
  C2. When the computed length of the displacement is not less than the radius,
  \<open>makeDipoleEntry\<close> raises the AssertionError of its check, returns no line and
  stores neither auxiliary charge; the entry of the bead itself has been appended to
  \<open>global_position_storage\<close> before the check.
\<close>

theorem makeDipoleEntry_displacement_too_long:
  assumes "\<not> fless (norm3 (dipole_displacement g dipole_direction)) (radius g)"
  shows "makeDipoleEntry g counter position dipole_direction st =
     (Inl (AssertionError ''increase `fictitious_charge`''),
      st\<lparr>global_position_storage :=
           global_position_storage st @ [(position, charge g, radius g)]\<rparr>)"
  by (rule makeDipoleEntry_fails) (simp add: displacement_check_def assms)

theorem makeDipoleEntry_displacement_too_long_witness:
  "\<not> fless (norm3 (dipole_displacement (notebook_globals\<lparr>radius := Fin 1\<rparr>) (Fin 1, Fin 0, Fin 0)))
        (radius (notebook_globals\<lparr>radius := Fin 1\<rparr>))
   \<and> makeDipoleEntry (notebook_globals\<lparr>radius := Fin 1\<rparr>) 7 (Fin 0, Fin 0, Fin 0)
        (Fin 1, Fin 0, Fin 0) notebook_state =
     (Inl (AssertionError ''increase `fictitious_charge`''),
      notebook_state\<lparr>global_position_storage := [((Fin 0, Fin 0, Fin 0), Fin 2, Fin 1)]\<rparr>)"
proof -
  have h: "\<not> fless (norm3 (dipole_displacement (notebook_globals\<lparr>radius := Fin 1\<rparr>)
                             (Fin 1, Fin 0, Fin 0)))
             (radius (notebook_globals\<lparr>radius := Fin 1\<rparr>))"
    using small_radius_displacement_check by (simp add: displacement_check_def)
  from makeDipoleEntry_displacement_too_long [OF h, of 7 "(Fin 0, Fin 0, Fin 0)" notebook_state] h
  show ?thesis by (simp add: notebook_fields notebook_state_def)
qed

lemma boundary_checks:
  "displacement_check \<lparr>radius = Fin (7425980273453237 / 36028797018963968), charge = Fin 2, dipole_scalar = Fin 99, fictitious_charge = Fin 50\<rparr> (Fin 1, Fin 0, Fin 0)"
  "moment_check \<lparr>radius = Fin (7425980273453237 / 36028797018963968), charge = Fin 2, dipole_scalar = Fin 99, fictitious_charge = Fin 50\<rparr> (Fin 0, Fin 0, Fin 0) (Fin 1, Fin 0, Fin 0)"
  by (simp_all add: displacement_check_def moment_check_def dipole_moment_def
        dipole_displacement_def debye_eq assert_almost_equal_Fin float_facts)

text \<open>
  C2, the inputs on which the claim fails. With the notebook's values and a radius of 1
  the call raises, and the storage holds the entry of the bead. With a dipole of 99, a
  fictitious charge of 50 and the radius \<open>0.206112357\<close> the real number
  \<open>0.2081943 * 99 / (2 * 50)\<close> is not less than the radius, but the length the
  code computes is, and the call returns.
\<close>

theorem makeDipoleEntry_displacement_too_long_counterexample:
  "makeDipoleEntry (notebook_globals\<lparr>radius := Fin 1\<rparr>) 1 (Fin 0, Fin 0, Fin 0)
        (Fin 1, Fin 0, Fin 0) notebook_state =
     (Inl (AssertionError ''increase `fictitious_charge`''),
      notebook_state\<lparr>global_position_storage := [((Fin 0, Fin 0, Fin 0), Fin 2, Fin 1)]\<rparr>)
   \<and> global_position_storage notebook_state = []
   \<and> 7425980273453237 / 36028797018963968 \<le> (2081943 / 10000000 * 99 / (2 * 50) :: real)
   \<and> fst (makeDipoleEntry \<lparr>radius = Fin (7425980273453237 / 36028797018963968), charge = Fin 2, dipole_scalar = Fin 99, fictitious_charge = Fin 50\<rparr>
             1 (Fin 0, Fin 0, Fin 0) (Fin 1, Fin 0, Fin 0) notebook_state)
       = Inr (dipole_bead_lines \<lparr>radius = Fin (7425980273453237 / 36028797018963968), charge = Fin 2, dipole_scalar = Fin 99, fictitious_charge = Fin 50\<rparr>
                1 (Fin 0, Fin 0, Fin 0) (Fin 1, Fin 0, Fin 0))"
  by (simp add: makeDipoleEntry_fails [OF small_radius_displacement_check] notebook_fields
        makeDipoleEntry_succeeds [OF boundary_checks])
     (simp add: notebook_state_def)

text \<open>
  C5. \<open>makeDipoleEntry\<close> writes no array and changes no entry already stored, but
  it always appends to the global list \<open>global_position_storage\<close>. If it returns,
  the lines it returns are the three lines of the bead and of the two auxiliary charges,
  numbered from \<open>counter\<close>, and the storage has grown by exactly these three entries,
  in this order.
\<close>

theorem makeDipoleEntry_effect:
  "arrays (snd (makeDipoleEntry g counter position dipole_direction st)) = arrays st
   \<and> take (length (global_position_storage st))
        (global_position_storage (snd (makeDipoleEntry g counter position dipole_direction st)))
      = global_position_storage st
   \<and> length (global_position_storage st)
      < length (global_position_storage (snd (makeDipoleEntry g counter position dipole_direction st)))
   \<and> (fst (makeDipoleEntry g counter position dipole_direction st) = Inr lines \<longrightarrow>
        lines = map2 entry_line [counter, counter + 1, counter + 2]
                  (dipole_bead_records g position dipole_direction)
        \<and> snd (makeDipoleEntry g counter position dipole_direction st)
            = st\<lparr>global_position_storage := global_position_storage st
                    @ dipole_bead_records g position dipole_direction\<rparr>)"
proof (intro conjI impI)
  show "arrays (snd (makeDipoleEntry g counter position dipole_direction st)) = arrays st"
    by (rule makeDipoleEntry_arrays)
  show "take (length (global_position_storage st))
        (global_position_storage (snd (makeDipoleEntry g counter position dipole_direction st)))
      = global_position_storage st"
    by (rule makeDipoleEntry_storage_prefix)
  show "length (global_position_storage st)
      < length (global_position_storage (snd (makeDipoleEntry g counter position dipole_direction st)))"
    by (simp add: makeDipoleEntry_cases dipole_bead_records_def)
next
  assume r: "fst (makeDipoleEntry g counter position dipole_direction st) = Inr lines"
  then have "\<exists>lines. fst (makeDipoleEntry g counter position dipole_direction st) = Inr lines"
    by blast
  then have "displacement_check g dipole_direction \<and> moment_check g position dipole_direction"
    by (simp only: makeDipoleEntry_Inr_iff)
  then have e: "makeDipoleEntry g counter position dipole_direction st =
     (Inr (dipole_bead_lines g counter position dipole_direction),
      st\<lparr>global_position_storage :=
           global_position_storage st @ dipole_bead_records g position dipole_direction\<rparr>)"
    by (simp add: makeDipoleEntry_succeeds)
  show "lines = map2 entry_line [counter, counter + 1, counter + 2]
                  (dipole_bead_records g position dipole_direction)"
    using r unfolding e by (simp add: dipole_bead_lines_def)
  show "snd (makeDipoleEntry g counter position dipole_direction st)
            = st\<lparr>global_position_storage := global_position_storage st
                    @ dipole_bead_records g position dipole_direction\<rparr>"
    unfolding e by simp
qed

theorem makeDipoleEntry_effect_witness:
  "fst (makeDipoleEntry notebook_globals 1 (Fin 0, Fin 0, Fin 0) (Fin 1, Fin 0, Fin 0) notebook_state)
     = Inr [pqrformat 1 (Fin 0, Fin 0, Fin 0) (Fin 2) (Fin 15),
            pqrformat 2 (Fin (7032178289254959 / 4503599627370496), Fin 0, Fin 0) (Fin 10) (Fin 1),
            pqrformat 3 (Fin (- (7032178289254959 / 4503599627370496)), Fin 0, Fin 0) (Fin (- 10)) (Fin 1)]
   \<and> snd (makeDipoleEntry notebook_globals 1 (Fin 0, Fin 0, Fin 0) (Fin 1, Fin 0, Fin 0)
            notebook_state)
     = notebook_state\<lparr>global_position_storage :=
         [((Fin 0, Fin 0, Fin 0), Fin 2, Fin 15),
          ((Fin (7032178289254959 / 4503599627370496), Fin 0, Fin 0), Fin 10, Fin 1),
          ((Fin (- (7032178289254959 / 4503599627370496)), Fin 0, Fin 0), Fin (- 10), Fin 1)]\<rparr>"
proof -
  let ?lines = "dipole_bead_lines notebook_globals 1 (Fin 0, Fin 0, Fin 0) (Fin 1, Fin 0, Fin 0)"
  have r: "fst (makeDipoleEntry notebook_globals 1 (Fin 0, Fin 0, Fin 0) (Fin 1, Fin 0, Fin 0)
                  notebook_state) = Inr ?lines"
    by (simp add: notebook_bead)
  from makeDipoleEntry_effect [of notebook_globals 1 "(Fin 0, Fin 0, Fin 0)" "(Fin 1, Fin 0, Fin 0)"
         notebook_state ?lines] r
  have "?lines = map2 entry_line [1, 1 + 1, 1 + 2]
                  (dipole_bead_records notebook_globals (Fin 0, Fin 0, Fin 0) (Fin 1, Fin 0, Fin 0))"
    and "snd (makeDipoleEntry notebook_globals 1 (Fin 0, Fin 0, Fin 0) (Fin 1, Fin 0, Fin 0)
            notebook_state)
         = notebook_state\<lparr>global_position_storage := global_position_storage notebook_state
             @ dipole_bead_records notebook_globals (Fin 0, Fin 0, Fin 0) (Fin 1, Fin 0, Fin 0)\<rparr>"
    by blast+
  then show ?thesis
    using r by (simp add: notebook_bead_records entry_line_def notebook_state_def)
qed

text \<open>
  C5, the input on which the claim fails: the first bead of the notebook's example. The
  storage is empty before the call and holds three entries after it.
\<close>

theorem makeDipoleEntry_effect_counterexample:
  "global_position_storage notebook_state = []
   \<and> global_position_storage
        (snd (makeDipoleEntry notebook_globals 1 (Fin 0, Fin 0, Fin 0) (Fin 1, Fin 0, Fin 0)
                notebook_state))
      = [((Fin 0, Fin 0, Fin 0), Fin 2, Fin 15),
         ((Fin (7032178289254959 / 4503599627370496), Fin 0, Fin 0), Fin 10, Fin 1),
         ((Fin (- (7032178289254959 / 4503599627370496)), Fin 0, Fin 0), Fin (- 10), Fin 1)]"
  by (simp add: notebook_bead notebook_bead_records notebook_state_def)

section \<open>Properties of the fibril builders\<close>







text \<open>
  C10. \<open>makeDipoleFibril\<close> leaves every array as it was, the caller's
  \<open>initial_position\<close> included. \<open>makeMonopoleFibril\<close> leaves the caller's
  \<open>initial_position\<close> at the centre the next bead would have, that is after \<open>n\<close>
  additions of the computed step to it, and every other array as it was.
\<close>

theorem fibril_builders_initial_position:
  "arrays (snd (makeDipoleFibril g n initial_position direction st)) = arrays st
   \<and> arrays (snd (makeMonopoleFibril g n initial_position direction st))
       = (arrays st)(initial_position :=
            fibril_center g (arrays st direction) (arrays st initial_position) (nat n))"
  by (simp add: makeDipoleFibril_arrays makeMonopoleFibril_eq)

theorem fibril_builders_initial_position_witness:
  "arrays (snd (makeDipoleFibril notebook_globals 3 0 1 notebook_state)) 0 = (Fin 0, Fin 0, Fin 0)
   \<and> arrays (snd (makeMonopoleFibril notebook_globals 3 0 1 notebook_state)) 0 = (Fin 90, Fin 0, Fin 0)"
  using fibril_builders_initial_position [of notebook_globals 3 0 1 notebook_state]
  by (simp add: notebook_arrays notebook_fibril_center)

text \<open>
  C10, the input on which the claim fails: the notebook's values with the direction
  \<open>(2 ^ 600, 0, 0)\<close>. The square of the first component overflows, the norm is
  infinite and the step is \<open>(0, 0, 0)\<close>: after three beads the caller's array is
  where it was, not advanced by \<open>3 * 2 * radius = 90\<close>.
\<close>

theorem fibril_builders_initial_position_counterexample:
  "arrays (snd (makeMonopoleFibril notebook_globals 3 0 1
      (notebook_state\<lparr>arrays := (arrays notebook_state)(1 := (Fin (2 ^ 600), Fin 0, Fin 0))\<rparr>))) 0
   = (Fin 0, Fin 0, Fin 0)"
proof -
  have "(2::real) ^ 513 \<le> \<bar>30 * 2 ^ 600\<bar>" and "\<bar>30 * 2 ^ 600\<bar> \<le> (2::real) ^ 1023"
    by simp_all
  from fmul_finite_big [OF this] obtain y where y: "fmul (Fin 30) (Fin (2 ^ 600)) = Fin y"
    by blast
  have s: "fmul (Fin (2 ^ 600)) (Fin (2 ^ 600)) = PInf"
    by (rule fmul_square_overflow) simp
  have d: "fibril_displacement notebook_globals (Fin (2 ^ 600), Fin 0, Fin 0)
           = (Fin 0, Fin 0, Fin 0)"
    using y s by (simp add: fibril_displacement_def notebook_fields float_facts)
  have c: "fibril_center notebook_globals (Fin (2 ^ 600), Fin 0, Fin 0) (Fin 0, Fin 0, Fin 0) k
           = (Fin 0, Fin 0, Fin 0)" for k
    by (induction k) (use d in \<open>simp_all add: fibril_center_0 fibril_center_Suc\<close>)
  show ?thesis
    unfolding makeMonopoleFibril_eq using c [of 3]
    by (simp add: notebook_arrays)
qed

text \<open>
  C6, at the notebook's values: a dipole fibril of two beads numbers its six lines
  1, 2, 3, 2, 3, 4, since \<open>makeDipoleEntry\<close> uses three consecutive numbers from
  \<open>counter\<close> and the loop passes \<open>counter + 1\<close> for \<open>counter\<close> in
  \<open>range(n)\<close>; a monopole fibril of three beads numbers its lines 1, 2, 3.
\<close>

theorem makeDipoleFibril_numbering:
  "map_sum id (map atom_cnt) (fst (makeDipoleFibril notebook_globals 2 0 1 notebook_state))
     = Inr [1, 2, 3, 2, 3, 4]
   \<and> map atom_cnt (fst (makeMonopoleFibril notebook_globals 3 0 1 notebook_state)) = [1, 2, 3]"
  unfolding notebook_dipole_fibril notebook_monopole_fibril
  by (simp add: dipole_bead_lines_def dipole_bead_records_def entry_line_def pqrformat_def)

section \<open>The alignment of the system dipole\<close>











section \<open>Loading the dipole moments\<close>










end
